theory Spec2Isabelle
  imports Main
begin

section \<open>Data model (src/src/banners.py)\<close>

text \<open>
  The ORM classes \<open>Tag\<close> and \<open>Banner\<close>. A \<open>Tag\<close> has its primary key only. The
  relationship \<open>Banner.tags\<close> (a Python list of \<open>Tag\<close> objects, stored through the
  secondary table \<open>banner_tags\<close>) is the field \<open>tags\<close>: one list element is one
  association row. Python integers are unbounded, hence \<open>int\<close>.
\<close>

datatype Tag = Tag (tag_id: int)

record Banner =
  banner_id :: int
  feature_id :: int
  tags :: "Tag list"
  content :: string
  is_active :: bool
  created_at :: string
  updated_at :: string

text \<open>
  The class \<open>User\<close> is imported by main.py from a module that is not among the sources;
  its columns are the ones main.py and the tests read and write.
\<close>

record User =
  user_id :: int
  username :: string
  token :: string
  admin :: bool

text \<open>
  The database behind a session: the three tables, each a list of rows in the order in
  which they were inserted, and the counter of the autoincrement key of \<open>banners\<close>.

  No query of main.py has an ORDER BY, and SQL leaves the order of the rows of such a
  query to the engine. The field \<open>join_rank\<close> is the engine's choice for the join of
  \<open>banners\<close> with their tags: the rows of the join come back by ascending rank, rows of
  equal rank in the order of the tables. Nothing is assumed about it; no handler
  changes it.
\<close>

record store =
  users :: "User list"
  tag_rows :: "Tag list"
  banners :: "Banner list"
  banner_seq :: int
  join_rank :: "Banner \<Rightarrow> Tag \<Rightarrow> int"

section \<open>Values that leave a handler\<close>

datatype json =
    JNull
  | JBool bool
  | JInt int
  | JStr string
  | JList "json list"
  | JDict "(string \<times> json) list"

text \<open>
  A handler raises (\<open>Inl\<close>) or returns (\<open>Inr\<close>). It returns a \<open>JSONResponse\<close>, a bare
  \<open>Response\<close>, or a plain Python value (\<open>Returned\<close>), which FastAPI serialises itself.
\<close>

datatype error = HTTPException nat | TypeError

datatype reply = JSONResponse json nat | Response nat | Returned json

type_synonym outcome = "error + reply"

abbreviation HTTP_200_OK :: nat where "HTTP_200_OK \<equiv> 200"
abbreviation HTTP_201_CREATED :: nat where "HTTP_201_CREATED \<equiv> 201"
abbreviation HTTP_204_NO_CONTENT :: nat where "HTTP_204_NO_CONTENT \<equiv> 204"
abbreviation HTTP_401_UNAUTHORIZED :: nat where "HTTP_401_UNAUTHORIZED \<equiv> 401"
abbreviation HTTP_403_FORBIDDEN :: nat where "HTTP_403_FORBIDDEN \<equiv> 403"
abbreviation HTTP_404_NOT_FOUND :: nat where "HTTP_404_NOT_FOUND \<equiv> 404"

text \<open>
  The status line the client sees. None of the routes of main.py sets \<open>status_code\<close> in
  its decorator, so a plain returned value is sent with FastAPI's default 200; an
  exception that is not an \<open>HTTPException\<close> is a 500.
\<close>

fun http_status :: "outcome \<Rightarrow> nat" where
  "http_status (Inl (HTTPException c)) = c"
| "http_status (Inl TypeError) = 500"
| "http_status (Inr (JSONResponse body c)) = c"
| "http_status (Inr (Response c)) = c"
| "http_status (Inr (Returned v)) = HTTP_200_OK"

definition get_as_dict :: "Banner \<Rightarrow> json" where
  "get_as_dict self =
     JDict [(''banner_id'', JInt (banner_id self)),
            (''tag_ids'', JList (map (\<lambda>tag. JInt (tag_id tag)) (tags self))),
            (''feature_id'', JInt (feature_id self)),
            (''content'', JStr (content self)),
            (''is_active'', JBool (is_active self)),
            (''created_at'', JStr (created_at self)),
            (''updated_at'', JStr (updated_at self))]"

section \<open>Session operations used by main.py\<close>

text \<open>\<open>session.get(Tag, tag_id)\<close> and \<open>session.get(Banner, banner_id)\<close>: lookup by key.\<close>

definition session_get_tag :: "store \<Rightarrow> int \<Rightarrow> Tag option" where
  "session_get_tag st tid = find (\<lambda>t. tag_id t = tid) (tag_rows st)"

definition session_get_banner :: "store \<Rightarrow> int \<Rightarrow> Banner option" where
  "session_get_banner st bid = find (\<lambda>b. banner_id b = bid) (banners st)"

text \<open>\<open>select(User).where(User.token == token)\<close>.\<close>

definition select_users :: "store \<Rightarrow> string \<Rightarrow> User list" where
  "select_users st t = filter (\<lambda>u. token u = t) (users st)"

text \<open>
  \<open>banners JOIN banner_tags JOIN tags\<close>: an inner join, one row for every pair of a
  banner and one of its associated tags, in the order the engine gives them.
\<close>

definition join_rows :: "store \<Rightarrow> (Banner \<times> Tag) list" where
  "join_rows st =
     sort_key (\<lambda>(b, t). join_rank st b t) [(b, t). b \<leftarrow> banners st, t \<leftarrow> tags b]"

text \<open>
  \<open>select(Banner).join(Banner.tags).where(cond)\<close>, read with \<open>session.scalars(...).all()\<close>:
  the banner of every row of the join that satisfies the condition; the rows are not
  made unique.
\<close>

definition select_banner_join_tags :: "store \<Rightarrow> (Banner \<Rightarrow> Tag \<Rightarrow> bool) \<Rightarrow> Banner list" where
  "select_banner_join_tags st cond = map fst (filter (\<lambda>(b, t). cond b t) (join_rows st))"

text \<open>Python's \<open>xs[start:stop]\<close> on integers: negative bounds count from the end, both are clamped.\<close>

definition py_slice :: "'a list \<Rightarrow> int \<Rightarrow> int \<Rightarrow> 'a list" where
  "py_slice xs start stop =
     (let n = int (length xs);
          lo = (if start < 0 then max (start + n) 0 else min start n);
          hi = (if stop < 0 then max (stop + n) 0 else min stop n)
      in take (nat (hi - lo)) (drop (nat lo) xs))"

section \<open>Token verification (main.py, lines 20 to 41)\<close>

definition user_token_verification :: "store \<Rightarrow> string option \<Rightarrow> error + unit" where
  "user_token_verification st tok =
     (case tok of
        None \<Rightarrow> Inl (HTTPException HTTP_401_UNAUTHORIZED)
      | Some t \<Rightarrow>
          (let result = select_users st t
           in if length result < 1 then Inl (HTTPException HTTP_401_UNAUTHORIZED)
              else Inr ()))"

definition admin_token_verification :: "store \<Rightarrow> string option \<Rightarrow> error + unit" where
  "admin_token_verification st tok =
     (case tok of
        None \<Rightarrow> Inl (HTTPException HTTP_401_UNAUTHORIZED)
      | Some t \<Rightarrow>
          (let result = select_users st t
           in if length result < 1 then Inl (HTTPException HTTP_401_UNAUTHORIZED)
              else if \<not> admin (result ! 0) then Inl (HTTPException HTTP_403_FORBIDDEN)
              else Inr ()))"

section \<open>Handlers (main.py, lines 44 to 148)\<close>

definition user_banner :: "store \<Rightarrow> int \<Rightarrow> int \<Rightarrow> bool \<Rightarrow> outcome" where
  "user_banner st tid fid use_last_revision =
     (case session_get_tag st tid of
        None \<Rightarrow> Inl (HTTPException HTTP_404_NOT_FOUND)
      | Some tag \<Rightarrow>
          (let results = select_banner_join_tags st
                 (\<lambda>b t. feature_id b = fid \<and> tag_id t = tid \<and> is_active b)
           in if length results < 1 then Inl (HTTPException HTTP_404_NOT_FOUND)
              else Inr (JSONResponse (JStr (content (results ! 0))) HTTP_200_OK)))"

text \<open>
  The rows \<open>get_banners\<close> reads before slicing: an absent filter is the Python constant
  \<open>True\<close> in the condition, and the join is there whether or not \<open>tag_id\<close> is given.
\<close>

definition get_banners_query :: "store \<Rightarrow> int option \<Rightarrow> int option \<Rightarrow> Banner list" where
  "get_banners_query st fid tid =
     select_banner_join_tags st
       (\<lambda>b t. (case fid of Some f \<Rightarrow> feature_id b = f | None \<Rightarrow> True) \<and>
              (case tid of Some x \<Rightarrow> tag_id t = x | None \<Rightarrow> True))"

text \<open>
  \<open>offset + limit\<close> with \<open>offset = None\<close> is a TypeError; it is evaluated only when a
  limit is given.
\<close>

definition get_banners ::
    "store \<Rightarrow> int option \<Rightarrow> int option \<Rightarrow> int option \<Rightarrow> int option \<Rightarrow> outcome" where
  "get_banners st fid tid limit offset =
     (if tid \<noteq> None \<and> session_get_tag st (the tid) = None
      then Inr (JSONResponse (JList []) HTTP_200_OK)
      else
        (let results = get_banners_query st fid tid
         in case limit of
              None \<Rightarrow> Inr (JSONResponse (JList (map get_as_dict results)) HTTP_200_OK)
            | Some l \<Rightarrow>
                (case offset of
                   None \<Rightarrow> Inl TypeError
                 | Some off \<Rightarrow>
                     Inr (JSONResponse
                            (JList (map get_as_dict (py_slice results off (off + l))))
                            HTTP_200_OK))))"

record PostBanner =
  post_tag_ids :: "int list"
  post_feature_id :: int
  post_content :: string
  post_is_active :: bool

record PatchBanner =
  patch_tag_ids :: "int list option"
  patch_feature_id :: "int option"
  patch_content :: "string option"
  patch_is_active :: "bool option"

text \<open>
  The loop \<open>for tag_id in args.tag_ids\<close> of \<open>post_banner\<close> and \<open>patch_banner\<close>: get the
  tag or add a new one to the session, then append it to the banner's collection. A tag
  added in one iteration is found by \<open>session.get\<close> in the next ones (the session
  flushes before it reads).
\<close>

fun tags_loop :: "store \<Rightarrow> Tag list \<Rightarrow> int list \<Rightarrow> store \<times> Tag list" where
  "tags_loop st coll [] = (st, coll)"
| "tags_loop st coll (tid # tids) =
     (case session_get_tag st tid of
        None \<Rightarrow> tags_loop (st\<lparr>tag_rows := tag_rows st @ [Tag tid]\<rparr>) (coll @ [Tag tid]) tids
      | Some tag \<Rightarrow> tags_loop st (coll @ [tag]) tids)"

text \<open>
  \<open>post_banner\<close>; the two readings of the clock are the arguments \<open>now1\<close> and \<open>now2\<close>.
  The key is assigned when the new row is flushed.
\<close>

definition post_banner :: "store \<Rightarrow> PostBanner \<Rightarrow> string \<Rightarrow> string \<Rightarrow> store \<times> outcome" where
  "post_banner st args now1 now2 =
     (let (st1, coll) = tags_loop st [] (post_tag_ids args);
          new_id = banner_seq st1;
          banner = \<lparr>banner_id = new_id, feature_id = post_feature_id args, tags = coll,
                    content = post_content args, is_active = post_is_active args,
                    created_at = now1, updated_at = now2\<rparr>
      in (st1\<lparr>banners := banners st1 @ [banner], banner_seq := new_id + 1\<rparr>,
          Inr (JSONResponse (JDict [(''banner_id'', JInt new_id)]) HTTP_201_CREATED)))"

text \<open>The assignments of \<open>patch_banner\<close> to the loaded banner, in the order of the source.\<close>

definition patch_fields :: "Banner \<Rightarrow> PatchBanner \<Rightarrow> string \<Rightarrow> Banner" where
  "patch_fields banner args now =
     (let b1 = (case patch_feature_id args of None \<Rightarrow> banner | Some f \<Rightarrow> banner\<lparr>feature_id := f\<rparr>);
          b2 = (case patch_content args of None \<Rightarrow> b1 | Some c \<Rightarrow> b1\<lparr>content := c\<rparr>);
          b3 = (case patch_is_active args of None \<Rightarrow> b2 | Some a \<Rightarrow> b2\<lparr>is_active := a\<rparr>)
      in b3\<lparr>updated_at := now\<rparr>)"

definition patch_banner :: "store \<Rightarrow> PatchBanner \<Rightarrow> int \<Rightarrow> string \<Rightarrow> store \<times> outcome" where
  "patch_banner st args bid now =
     (case session_get_banner st bid of
        None \<Rightarrow> (st, Inl (HTTPException HTTP_404_NOT_FOUND))
      | Some banner \<Rightarrow>
          (let (st1, b0) =
                 (case patch_tag_ids args of
                    None \<Rightarrow> (st, banner)
                  | Some tids \<Rightarrow>
                      (let (s, coll) = tags_loop st [] tids in (s, banner\<lparr>tags := coll\<rparr>)));
               banner' = patch_fields b0 args now
           in (st1\<lparr>banners := map (\<lambda>b. if banner_id b = bid then banner' else b) (banners st1)\<rparr>,
               Inr (Response HTTP_200_OK))))"

text \<open>
  \<open>delete_banner\<close>: the branch for an absent banner returns the integer
  \<open>status.HTTP_404_NOT_FOUND\<close>; it does not raise.
\<close>

definition delete_banner :: "store \<Rightarrow> int \<Rightarrow> store \<times> outcome" where
  "delete_banner st bid =
     (case session_get_banner st bid of
        Some banner \<Rightarrow>
          (st\<lparr>banners := filter (\<lambda>b. banner_id b \<noteq> bid) (banners st)\<rparr>,
           Inr (Response HTTP_204_NO_CONTENT))
      | None \<Rightarrow> (st, Inr (Returned (JInt (int HTTP_404_NOT_FOUND)))))"

section \<open>Routes: a handler behind its dependency\<close>

text \<open>
  \<open>dependencies=[Depends(f)]\<close>: the dependency runs first; when it raises, the handler
  does not run and the store is not touched.
\<close>

definition depends :: "error + unit \<Rightarrow> store \<Rightarrow> store \<times> outcome \<Rightarrow> store \<times> outcome" where
  "depends dep st run = (case dep of Inl e \<Rightarrow> (st, Inl e) | Inr u \<Rightarrow> run)"

definition GET_user_banner :: "store \<Rightarrow> string option \<Rightarrow> int \<Rightarrow> int \<Rightarrow> bool \<Rightarrow> store \<times> outcome" where
  "GET_user_banner st tok tid fid use_last_revision =
     depends (user_token_verification st tok) st (st, user_banner st tid fid use_last_revision)"

text \<open>
  The query parameters of \<open>GET /banner\<close> are optional; one that the request leaves out
  takes the default of the signature, which is \<open>None\<close> but for \<open>offset\<close>, whose default
  is 0.
\<close>

definition GET_banner ::
    "store \<Rightarrow> string option \<Rightarrow> int option \<Rightarrow> int option \<Rightarrow> int option \<Rightarrow> int option
       \<Rightarrow> store \<times> outcome" where
  "GET_banner st tok fid tid limit offset_param =
     depends (admin_token_verification st tok) st
       (st, get_banners st fid tid limit
              (Some (case offset_param of None \<Rightarrow> 0 | Some off \<Rightarrow> off)))"

definition POST_banner :: "store \<Rightarrow> string option \<Rightarrow> PostBanner \<Rightarrow> string \<Rightarrow> string \<Rightarrow> store \<times> outcome" where
  "POST_banner st tok args now1 now2 =
     depends (admin_token_verification st tok) st (post_banner st args now1 now2)"

definition PATCH_banner :: "store \<Rightarrow> string option \<Rightarrow> PatchBanner \<Rightarrow> int \<Rightarrow> string \<Rightarrow> store \<times> outcome" where
  "PATCH_banner st tok args bid now =
     depends (admin_token_verification st tok) st (patch_banner st args bid now)"

definition DELETE_banner :: "store \<Rightarrow> string option \<Rightarrow> int \<Rightarrow> store \<times> outcome" where
  "DELETE_banner st tok bid =
     depends (admin_token_verification st tok) st (delete_banner st bid)"

section \<open>Predicates of the specification\<close>

text \<open>
  A banner matches a pair of a feature and a tag when it is active, has that feature
  identifier and is associated with the tag.
\<close>

definition banner_matches :: "int \<Rightarrow> int \<Rightarrow> Banner \<Rightarrow> bool" where
  "banner_matches fid tid b \<longleftrightarrow> is_active b \<and> feature_id b = fid \<and> Tag tid \<in> set (tags b)"

text \<open>
  The foreign key of \<open>banner_tags.tag_id\<close>: every tag associated with a banner is a row
  of the table \<open>tags\<close>.
\<close>

definition tags_registered :: "store \<Rightarrow> bool" where
  "tags_registered st \<longleftrightarrow> list_all (\<lambda>b. list_all (\<lambda>t. t \<in> set (tag_rows st)) (tags b)) (banners st)"

section \<open>Example stores\<close>

definition test_user :: User where
  "test_user = \<lparr>user_id = 1, username = ''test_user'', token = ''test_token'', admin = False\<rparr>"

definition admin_user :: User where
  "admin_user = \<lparr>user_id = 2, username = ''test_user'', token = ''admin_token'', admin = True\<rparr>"

text \<open>
  Two engines. One returns the join in the order of the table \<open>banners\<close>. The other
  returns it in the order of the rows of \<open>banner_tags\<close>, for a database in which the
  association of banner 1 with tag 2 is row 1 of that table, the one of banner 2 with
  tag 1 is row 2, and every other association is row 3.
\<close>

definition table_order :: "Banner \<Rightarrow> Tag \<Rightarrow> int" where
  "table_order b t = 0"

definition association_order :: "Banner \<Rightarrow> Tag \<Rightarrow> int" where
  "association_order b t =
     (if banner_id b = 1 \<and> tag_id t = 2 then 1 else if banner_id b = 2 \<and> tag_id t = 1 then 2 else 3)"

definition empty_store :: store where
  "empty_store = \<lparr>users = [test_user, admin_user], tag_rows = [], banners = [], banner_seq = 1,
                   join_rank = table_order\<rparr>"

definition DEFAULT_BANNER :: PostBanner where
  "DEFAULT_BANNER = \<lparr>post_tag_ids = [1, 2, 3], post_feature_id = 1,
                      post_content = ''{\"test_banner\": \"smth\"}'', post_is_active = True\<rparr>"

definition no_fields :: PatchBanner where
  "no_fields = \<lparr>patch_tag_ids = None, patch_feature_id = None, patch_content = None,
                 patch_is_active = None\<rparr>"


text \<open>Two active banners of feature 1 with tag 1.\<close>

definition banner_a :: Banner where
  "banner_a = \<lparr>banner_id = 1, feature_id = 1, tags = [Tag 1], content = ''first'',
                is_active = True, created_at = ''t1'', updated_at = ''t1''\<rparr>"

definition banner_b :: Banner where
  "banner_b = \<lparr>banner_id = 2, feature_id = 1, tags = [Tag 1], content = ''second'',
                is_active = True, created_at = ''t2'', updated_at = ''t2''\<rparr>"

text \<open>
  Two requests that create an active banner of feature 1 with tag 1 each, and the store
  they leave behind.
\<close>

definition first_post :: PostBanner where
  "first_post = \<lparr>post_tag_ids = [1], post_feature_id = 1, post_content = ''first'',
                   post_is_active = True\<rparr>"

definition second_post :: PostBanner where
  "second_post = \<lparr>post_tag_ids = [1], post_feature_id = 1, post_content = ''second'',
                    post_is_active = True\<rparr>"

definition two_posts :: "store \<Rightarrow> store" where
  "two_posts st =
     fst (post_banner (fst (post_banner st first_post ''t1'' ''t1'')) second_post ''t2'' ''t2'')"

text \<open>
  Three requests: a banner of feature 1 is created with tag 2, a second one with tag 1,
  and then the tags of the first one are replaced by tag 1.
\<close>

definition other_tag_post :: PostBanner where
  "other_tag_post = \<lparr>post_tag_ids = [2], post_feature_id = 1, post_content = ''first'',
                       post_is_active = True\<rparr>"

definition retag :: PatchBanner where
  "retag = \<lparr>patch_tag_ids = Some [1], patch_feature_id = None, patch_content = None,
              patch_is_active = None\<rparr>"

definition three_requests :: "store \<Rightarrow> store" where
  "three_requests st =
     fst (patch_banner
            (fst (post_banner (fst (post_banner st other_tag_post ''t1'' ''t1''))
                    second_post ''t2'' ''t2''))
            retag 1 ''t3'')"

definition store_one :: store where
  "store_one = \<lparr>users = [test_user, admin_user], tag_rows = [Tag 1, Tag 2],
                 banners = [banner_a], banner_seq = 2, join_rank = table_order\<rparr>"

definition content_only :: PatchBanner where
  "content_only = \<lparr>patch_tag_ids = None, patch_feature_id = None, patch_content = Some ''X'',
                     patch_is_active = None\<rparr>"

definition tags_only :: PatchBanner where
  "tags_only = \<lparr>patch_tag_ids = Some [9], patch_feature_id = None, patch_content = None,
                  patch_is_active = None\<rparr>"

definition tags_repeated :: PatchBanner where
  "tags_repeated = \<lparr>patch_tag_ids = Some [9, 9, 1], patch_feature_id = None,
                      patch_content = None, patch_is_active = None\<rparr>"

definition twice_tagged :: PostBanner where
  "twice_tagged = \<lparr>post_tag_ids = [1, 1], post_feature_id = 1, post_content = ''c'',
                     post_is_active = True\<rparr>"

definition untagged :: PostBanner where
  "untagged = \<lparr>post_tag_ids = [], post_feature_id = 1, post_content = ''c'',
                 post_is_active = True\<rparr>"

text \<open>The store after \<open>DEFAULT_BANNER\<close> of the tests has been created in an empty database.\<close>

definition banner_c :: Banner where
  "banner_c = \<lparr>banner_id = 1, feature_id = 1, tags = [Tag 1, Tag 2, Tag 3],
                content = ''{\"test_banner\": \"smth\"}'', is_active = True,
                created_at = ''t1'', updated_at = ''t1''\<rparr>"

definition store_default :: store where
  "store_default = \<lparr>users = [test_user, admin_user], tag_rows = [Tag 1, Tag 2, Tag 3],
                     banners = [banner_c], banner_seq = 2, join_rank = table_order\<rparr>"



section \<open>Authorization\<close>

lemma select_users_empty_iff: "select_users st t = [] \<longleftrightarrow> (\<forall>u \<in> set (users st). token u \<noteq> t)"
  by (auto simp: select_users_def filter_empty_conv)

lemma find_Some_filter: "find P xs = Some x \<Longrightarrow> \<exists>ys. filter P xs = x # ys"
  by (induction xs) (auto split: if_splits)

lemma admin_verif_None: "admin_token_verification st None = Inl (HTTPException 401)"
  by (simp add: admin_token_verification_def)

lemma user_verif_None: "user_token_verification st None = Inl (HTTPException 401)"
  by (simp add: user_token_verification_def)

lemma admin_verif_unknown:
  "\<forall>u \<in> set (users st). token u \<noteq> t \<Longrightarrow> admin_token_verification st (Some t) = Inl (HTTPException 401)"
  using select_users_empty_iff[of st t] by (simp add: admin_token_verification_def)

lemma user_verif_unknown:
  "\<forall>u \<in> set (users st). token u \<noteq> t \<Longrightarrow> user_token_verification st (Some t) = Inl (HTTPException 401)"
  using select_users_empty_iff[of st t] by (simp add: user_token_verification_def)

lemma admin_verif_first:
  assumes "find (\<lambda>u. token u = t) (users st) = Some u"
  shows "admin_token_verification st (Some t) = (if admin u then Inr () else Inl (HTTPException 403))"
proof -
  obtain ys where "select_users st t = u # ys"
    using find_Some_filter[OF assms] by (auto simp: select_users_def)
  then show ?thesis by (simp add: admin_token_verification_def)
qed

lemma user_verif_first:
  assumes "find (\<lambda>u. token u = t) (users st) = Some u"
  shows "user_token_verification st (Some t) = Inr ()"
proof -
  obtain ys where "select_users st t = u # ys"
    using find_Some_filter[OF assms] by (auto simp: select_users_def)
  then show ?thesis by (simp add: user_token_verification_def)
qed

lemma user_verif_known:
  assumes "u \<in> set (users st)" and "token u = t"
  shows "user_token_verification st (Some t) = Inr ()"
proof -
  from assms have "u \<in> set (select_users st t)" by (simp add: select_users_def)
  then have "select_users st t \<noteq> []" by auto
  then show ?thesis by (simp add: user_token_verification_def)
qed

lemma forbidden_after_authenticated:
  "admin_token_verification st tok = Inl (HTTPException 403) \<Longrightarrow> user_token_verification st tok = Inr ()"
  by (auto simp: admin_token_verification_def user_token_verification_def Let_def split: option.splits if_splits)

lemma depends_Inl: "dep = Inl e \<Longrightarrow> depends dep st run = (st, Inl e)"
  by (simp add: depends_def)

lemma depends_Inr: "dep = Inr u \<Longrightarrow> depends dep st run = run"
  by (simp add: depends_def)

text \<open>
  Claim C8. On every route a missing token, or a token that no user row carries, is
  answered 401 and the store is left as it was. A token whose (first) user row is not an
  admin is answered 403 on the four admin routes (list, create, patch, delete), and one
  whose (first) user row is an admin reaches their handlers. \<open>GET /user_banner\<close> lets
  every token that some user row carries through to its handler, admin or not. A 403 is
  only ever raised for a token that passes the authentication check, so the 401
  decision comes first.
\<close>

theorem authorization_gate:
  "((tok = None \<or> (\<exists>t. tok = Some t \<and> (\<forall>u \<in> set (users st). token u \<noteq> t))) \<longrightarrow>
      GET_user_banner st tok tid fid ulr = (st, Inl (HTTPException HTTP_401_UNAUTHORIZED)) \<and>
      GET_banner st tok ofid otid limit offset = (st, Inl (HTTPException HTTP_401_UNAUTHORIZED)) \<and>
      POST_banner st tok post nowc nowu = (st, Inl (HTTPException HTTP_401_UNAUTHORIZED)) \<and>
      PATCH_banner st tok patch bid now = (st, Inl (HTTPException HTTP_401_UNAUTHORIZED)) \<and>
      DELETE_banner st tok bid = (st, Inl (HTTPException HTTP_401_UNAUTHORIZED))) \<and>
   ((\<exists>t u. tok = Some t \<and> find (\<lambda>u. token u = t) (users st) = Some u \<and> \<not> admin u) \<longrightarrow>
      GET_banner st tok ofid otid limit offset = (st, Inl (HTTPException HTTP_403_FORBIDDEN)) \<and>
      POST_banner st tok post nowc nowu = (st, Inl (HTTPException HTTP_403_FORBIDDEN)) \<and>
      PATCH_banner st tok patch bid now = (st, Inl (HTTPException HTTP_403_FORBIDDEN)) \<and>
      DELETE_banner st tok bid = (st, Inl (HTTPException HTTP_403_FORBIDDEN))) \<and>
   ((\<exists>t u. tok = Some t \<and> find (\<lambda>u. token u = t) (users st) = Some u \<and> admin u) \<longrightarrow>
      GET_banner st tok ofid otid limit offset
        = (st, get_banners st ofid otid limit (Some (case offset of None \<Rightarrow> 0 | Some off \<Rightarrow> off))) \<and>
      POST_banner st tok post nowc nowu = post_banner st post nowc nowu \<and>
      PATCH_banner st tok patch bid now = patch_banner st patch bid now \<and>
      DELETE_banner st tok bid = delete_banner st bid) \<and>
   ((\<exists>t u. tok = Some t \<and> u \<in> set (users st) \<and> token u = t) \<longrightarrow>
      GET_user_banner st tok tid fid ulr = (st, user_banner st tid fid ulr)) \<and>
   (admin_token_verification st tok = Inl (HTTPException HTTP_403_FORBIDDEN) \<longrightarrow>
      user_token_verification st tok = Inr ())"
proof (intro conjI impI)
  assume a: "tok = None \<or> (\<exists>t. tok = Some t \<and> (\<forall>u \<in> set (users st). token u \<noteq> t))"
  then have u: "user_token_verification st tok = Inl (HTTPException 401)"
    using user_verif_None user_verif_unknown by blast
  from a have ad: "admin_token_verification st tok = Inl (HTTPException 401)"
    using admin_verif_None admin_verif_unknown by blast
  show "GET_user_banner st tok tid fid ulr = (st, Inl (HTTPException HTTP_401_UNAUTHORIZED))"
    unfolding GET_user_banner_def by (rule depends_Inl[OF u])
  show "GET_banner st tok ofid otid limit offset = (st, Inl (HTTPException HTTP_401_UNAUTHORIZED))"
    unfolding GET_banner_def by (rule depends_Inl[OF ad])
  show "POST_banner st tok post nowc nowu = (st, Inl (HTTPException HTTP_401_UNAUTHORIZED))"
    unfolding POST_banner_def by (rule depends_Inl[OF ad])
  show "PATCH_banner st tok patch bid now = (st, Inl (HTTPException HTTP_401_UNAUTHORIZED))"
    unfolding PATCH_banner_def by (rule depends_Inl[OF ad])
  show "DELETE_banner st tok bid = (st, Inl (HTTPException HTTP_401_UNAUTHORIZED))"
    unfolding DELETE_banner_def by (rule depends_Inl[OF ad])
next
  assume "\<exists>t u. tok = Some t \<and> find (\<lambda>u. token u = t) (users st) = Some u \<and> \<not> admin u"
  then obtain t u where tok: "tok = Some t" and f: "find (\<lambda>u. token u = t) (users st) = Some u"
    and na: "\<not> admin u" by blast
  have ad: "admin_token_verification st tok = Inl (HTTPException 403)"
    using admin_verif_first[OF f] na tok by simp
  show "GET_banner st tok ofid otid limit offset = (st, Inl (HTTPException HTTP_403_FORBIDDEN))"
    unfolding GET_banner_def by (rule depends_Inl[OF ad])
  show "POST_banner st tok post nowc nowu = (st, Inl (HTTPException HTTP_403_FORBIDDEN))"
    unfolding POST_banner_def by (rule depends_Inl[OF ad])
  show "PATCH_banner st tok patch bid now = (st, Inl (HTTPException HTTP_403_FORBIDDEN))"
    unfolding PATCH_banner_def by (rule depends_Inl[OF ad])
  show "DELETE_banner st tok bid = (st, Inl (HTTPException HTTP_403_FORBIDDEN))"
    unfolding DELETE_banner_def by (rule depends_Inl[OF ad])
next
  assume "\<exists>t u. tok = Some t \<and> find (\<lambda>u. token u = t) (users st) = Some u \<and> admin u"
  then obtain t u where tok: "tok = Some t" and f: "find (\<lambda>u. token u = t) (users st) = Some u"
    and a: "admin u" by blast
  have ad: "admin_token_verification st tok = Inr ()"
    using admin_verif_first[OF f] a tok by simp
  show "GET_banner st tok ofid otid limit offset
        = (st, get_banners st ofid otid limit (Some (case offset of None \<Rightarrow> 0 | Some off \<Rightarrow> off)))"
    unfolding GET_banner_def by (rule depends_Inr[OF ad])
  show "POST_banner st tok post nowc nowu = post_banner st post nowc nowu"
    unfolding POST_banner_def by (rule depends_Inr[OF ad])
  show "PATCH_banner st tok patch bid now = patch_banner st patch bid now"
    unfolding PATCH_banner_def by (rule depends_Inr[OF ad])
  show "DELETE_banner st tok bid = delete_banner st bid"
    unfolding DELETE_banner_def by (rule depends_Inr[OF ad])
next
  assume "\<exists>t u. tok = Some t \<and> u \<in> set (users st) \<and> token u = t"
  then obtain t u where tok: "tok = Some t" and m: "u \<in> set (users st)" "token u = t" by blast
  have us: "user_token_verification st tok = Inr ()"
    using user_verif_known[OF m] tok by simp
  show "GET_user_banner st tok tid fid ulr = (st, user_banner st tid fid ulr)"
    unfolding GET_user_banner_def by (rule depends_Inr[OF us])
next
  assume "admin_token_verification st tok = Inl (HTTPException HTTP_403_FORBIDDEN)"
  then show "user_token_verification st tok = Inr ()" by (rule forbidden_after_authenticated)
qed

lemma empty_store_users:
  "users empty_store = [test_user, admin_user]"
  "token test_user = ''test_token''" "\<not> admin test_user"
  "token admin_user = ''admin_token''" "admin admin_user"
  by (simp_all add: empty_store_def test_user_def admin_user_def)

text \<open>
  The gate on the store of the tests: no token, a wrong token, the token of a plain user
  and the token of an admin.
\<close>

theorem authorization_gate_witness:
  "DELETE_banner empty_store None 1 = (empty_store, Inl (HTTPException 401)) \<and>
   POST_banner empty_store (Some ''wrong_token'') DEFAULT_BANNER ''t1'' ''t2''
     = (empty_store, Inl (HTTPException 401)) \<and>
   GET_user_banner empty_store (Some ''wrong_token'') 1 1 True = (empty_store, Inl (HTTPException 401)) \<and>
   PATCH_banner empty_store (Some ''test_token'') no_fields 1 ''t1''
     = (empty_store, Inl (HTTPException 403)) \<and>
   GET_user_banner empty_store (Some ''test_token'') 1 1 True = (empty_store, Inl (HTTPException 404)) \<and>
   GET_user_banner empty_store (Some ''admin_token'') 1 1 True = (empty_store, Inl (HTTPException 404)) \<and>
   PATCH_banner empty_store (Some ''admin_token'') no_fields 1 ''t1''
     = (empty_store, Inl (HTTPException 404)) \<and>
   admin_token_verification empty_store (Some ''test_token'') = Inl (HTTPException 403) \<and>
   user_token_verification empty_store (Some ''test_token'') = Inr ()"
proof -
  have h1: "\<forall>u \<in> set (users empty_store). token u \<noteq> ''wrong_token''"
    by (simp add: empty_store_users)
  have h2: "find (\<lambda>u. token u = ''test_token'') (users empty_store) = Some test_user"
    by (simp add: empty_store_users)
  have h3: "find (\<lambda>u. token u = ''admin_token'') (users empty_store) = Some admin_user"
    by (simp add: empty_store_users)
  have m2: "test_user \<in> set (users empty_store)" and m3: "admin_user \<in> set (users empty_store)"
    by (simp_all add: empty_store_users(1))
  have ub: "user_banner empty_store 1 1 True = Inl (HTTPException 404)"
    by (simp add: user_banner_def session_get_tag_def empty_store_def)
  have pb: "patch_banner empty_store no_fields 1 ''t1'' = (empty_store, Inl (HTTPException 404))"
    by (simp add: patch_banner_def session_get_banner_def empty_store_def)
  note g = authorization_gate[where st = empty_store and bid = 1 and tid = 1 and fid = 1 and ulr = True
      and post = DEFAULT_BANNER and nowc = "''t1''" and nowu = "''t2''" and now = "''t1''"
      and patch = no_fields]
  from g[where tok = None]
  have a: "DELETE_banner empty_store None 1 = (empty_store, Inl (HTTPException 401))"
    by simp
  from g[where tok = "Some ''wrong_token''"] h1
  have b: "POST_banner empty_store (Some ''wrong_token'') DEFAULT_BANNER ''t1'' ''t2''
     = (empty_store, Inl (HTTPException 401)) \<and>
     GET_user_banner empty_store (Some ''wrong_token'') 1 1 True = (empty_store, Inl (HTTPException 401))"
    by simp
  from g[where tok = "Some ''test_token''"] h2 empty_store_users(3)
  have c: "PATCH_banner empty_store (Some ''test_token'') no_fields 1 ''t1''
     = (empty_store, Inl (HTTPException 403))"
    by blast
  from g[where tok = "Some ''test_token''"] m2 empty_store_users(2)
  have c2: "GET_user_banner empty_store (Some ''test_token'') 1 1 True
     = (empty_store, user_banner empty_store 1 1 True)"
    by blast
  from g[where tok = "Some ''admin_token''"] m3 empty_store_users(4)
  have c3: "GET_user_banner empty_store (Some ''admin_token'') 1 1 True
     = (empty_store, user_banner empty_store 1 1 True)"
    by blast
  from g[where tok = "Some ''admin_token''"] h3 empty_store_users(5)
  have c4: "PATCH_banner empty_store (Some ''admin_token'') no_fields 1 ''t1''
     = patch_banner empty_store no_fields 1 ''t1''"
    by blast
  have d: "admin_token_verification empty_store (Some ''test_token'') = Inl (HTTPException 403)"
    using admin_verif_first[OF h2] empty_store_users(3) by simp
  from g[where tok = "Some ''test_token''"] d
  have e: "user_token_verification empty_store (Some ''test_token'') = Inr ()" by blast
  from a b c c2 c3 c4 d e ub pb show ?thesis by simp
qed

section \<open>Resolution\<close>

lemma tag_id_eq: "tag_id t = tid \<longleftrightarrow> t = Tag tid"
  by (cases t) auto

lemma find_tag: "find (\<lambda>t. tag_id t = tid) ts = (if Tag tid \<in> set ts then Some (Tag tid) else None)"
  by (induction ts) (auto simp: tag_id_eq)

lemma session_get_tag_eq:
  "session_get_tag st tid = (if Tag tid \<in> set (tag_rows st) then Some (Tag tid) else None)"
  by (simp add: session_get_tag_def find_tag)

lemma set_join_rows: "set (join_rows st) = {(b, t). b \<in> set (banners st) \<and> t \<in> set (tags b)}"
  by (auto simp: join_rows_def)

lemma set_select_banner_join_tags:
  "set (select_banner_join_tags st cond) = {b. b \<in> set (banners st) \<and> (\<exists>t. t \<in> set (tags b) \<and> cond b t)}"
  by (force simp: select_banner_join_tags_def set_join_rows)

text \<open>Whatever the engine's order, the rows of the query of \<open>user_banner\<close> are the matching banners.\<close>

lemma resolve_rows_set:
  "set (select_banner_join_tags st (\<lambda>b t. feature_id b = fid \<and> tag_id t = tid \<and> is_active b))
     = set (filter (banner_matches fid tid) (banners st))"
  by (auto simp: set_select_banner_join_tags banner_matches_def tag_id_eq)

lemma resolve_rows_Nil:
  assumes "filter (banner_matches fid tid) (banners st) = []"
  shows "select_banner_join_tags st (\<lambda>b t. feature_id b = fid \<and> tag_id t = tid \<and> is_active b) = []"
proof -
  have "set (select_banner_join_tags st (\<lambda>b t. feature_id b = fid \<and> tag_id t = tid \<and> is_active b)) = {}"
    unfolding resolve_rows_set using assms by simp
  then show ?thesis by simp
qed

lemma resolve_rows_Cons:
  assumes "filter (banner_matches fid tid) (banners st) \<noteq> []"
  shows "\<exists>b ys. select_banner_join_tags st (\<lambda>b t. feature_id b = fid \<and> tag_id t = tid \<and> is_active b) = b # ys
           \<and> b \<in> set (filter (banner_matches fid tid) (banners st))"
proof -
  let ?rows = "select_banner_join_tags st (\<lambda>b t. feature_id b = fid \<and> tag_id t = tid \<and> is_active b)"
  have s: "set ?rows = set (filter (banner_matches fid tid) (banners st))" by (rule resolve_rows_set)
  from assms s have "?rows \<noteq> []" by (metis set_empty)
  then obtain b ys where r: "?rows = b # ys" by (cases ?rows) auto
  then have "b \<in> set ?rows" by simp
  with s have "b \<in> set (filter (banner_matches fid tid) (banners st))" by simp
  with r show ?thesis by blast
qed

lemma user_banner_unknown_tag:
  "Tag tid \<notin> set (tag_rows st) \<Longrightarrow> user_banner st tid fid ulr = Inl (HTTPException 404)"
  by (simp add: user_banner_def session_get_tag_eq)

lemma user_banner_no_match:
  assumes "filter (banner_matches fid tid) (banners st) = []"
  shows "user_banner st tid fid ulr = Inl (HTTPException 404)"
  using resolve_rows_Nil[OF assms] by (simp add: user_banner_def split: option.splits)

lemma user_banner_first_row:
  assumes reg: "Tag tid \<in> set (tag_rows st)"
    and r: "select_banner_join_tags st (\<lambda>b t. feature_id b = fid \<and> tag_id t = tid \<and> is_active b) = b # ys"
  shows "user_banner st tid fid ulr = Inr (JSONResponse (JStr (content b)) 200)"
  using reg r by (simp add: user_banner_def session_get_tag_eq)

lemma user_banner_only_match:
  assumes reg: "Tag tid \<in> set (tag_rows st)"
    and m: "filter (banner_matches fid tid) (banners st) = [b]"
  shows "user_banner st tid fid ulr = Inr (JSONResponse (JStr (content b)) 200)"
proof -
  from m have "filter (banner_matches fid tid) (banners st) \<noteq> []" by simp
  from resolve_rows_Cons[OF this] obtain c ys
    where r: "select_banner_join_tags st (\<lambda>b t. feature_id b = fid \<and> tag_id t = tid \<and> is_active b) = c # ys"
      and c: "c \<in> set (filter (banner_matches fid tid) (banners st))" by blast
  from c have "c = b" unfolding m by simp
  with user_banner_first_row[OF reg r] show ?thesis by simp
qed

lemma registered_match:
  assumes "tags_registered st" and "b \<in> set (filter (banner_matches fid tid) (banners st))"
  shows "Tag tid \<in> set (tag_rows st)"
proof -
  from assms(2) have "b \<in> set (banners st)" and "Tag tid \<in> set (tags b)" by (auto simp: banner_matches_def)
  with assms(1) show ?thesis by (auto simp: tags_registered_def list_all_iff)
qed

text \<open>
  Claim C1. In a store that respects the foreign key of the association, when exactly
  one banner matches the pair (active, that feature, associated with that tag),
  \<open>user_banner\<close> answers 200 with the content of that banner. It raises 404 when the
  tag is not a row of \<open>tags\<close>, and when no banner matches. This holds for every order
  in which the engine returns the rows of the join.
\<close>

theorem resolve_unique_match_or_not_found:
  "(tags_registered st \<and> filter (banner_matches fid tid) (banners st) = [b] \<longrightarrow>
      user_banner st tid fid ulr = Inr (JSONResponse (JStr (content b)) HTTP_200_OK)) \<and>
   (Tag tid \<notin> set (tag_rows st) \<longrightarrow>
      user_banner st tid fid ulr = Inl (HTTPException HTTP_404_NOT_FOUND)) \<and>
   (filter (banner_matches fid tid) (banners st) = [] \<longrightarrow>
      user_banner st tid fid ulr = Inl (HTTPException HTTP_404_NOT_FOUND))"
proof (intro conjI impI)
  assume a: "tags_registered st \<and> filter (banner_matches fid tid) (banners st) = [b]"
  then have "b \<in> set (filter (banner_matches fid tid) (banners st))" by simp
  with a have "Tag tid \<in> set (tag_rows st)" using registered_match by blast
  with a show "user_banner st tid fid ulr = Inr (JSONResponse (JStr (content b)) HTTP_200_OK)"
    using user_banner_only_match by blast
next
  assume "Tag tid \<notin> set (tag_rows st)"
  then show "user_banner st tid fid ulr = Inl (HTTPException HTTP_404_NOT_FOUND)"
    by (rule user_banner_unknown_tag)
next
  assume "filter (banner_matches fid tid) (banners st) = []"
  then show "user_banner st tid fid ulr = Inl (HTTPException HTTP_404_NOT_FOUND)"
    by (rule user_banner_no_match)
qed

lemma store_one_facts:
  "tags_registered store_one"
  "filter (banner_matches 1 1) (banners store_one) = [banner_a]"
  "filter (banner_matches 1 2) (banners store_one) = []"
  "Tag 4 \<notin> set (tag_rows store_one)"
  by (simp_all add: tags_registered_def store_one_def banner_a_def banner_matches_def)

text \<open>One banner of feature 1 with tag 1; tag 2 is known and unused, tag 4 is unknown.\<close>

theorem resolve_unique_match_or_not_found_witness:
  "user_banner store_one 1 1 True = Inr (JSONResponse (JStr ''first'') 200) \<and>
   user_banner store_one 4 1 True = Inl (HTTPException 404) \<and>
   user_banner store_one 2 1 True = Inl (HTTPException 404)"
proof -
  have c: "content banner_a = ''first''" by (simp add: banner_a_def)
  from resolve_unique_match_or_not_found[of store_one 1 1 banner_a True] store_one_facts c
  have 1: "user_banner store_one 1 1 True = Inr (JSONResponse (JStr ''first'') 200)" by simp
  from resolve_unique_match_or_not_found[of store_one 1 4 banner_a True] store_one_facts
  have 2: "user_banner store_one 4 1 True = Inl (HTTPException 404)" by blast
  from resolve_unique_match_or_not_found[of store_one 1 2 banner_a True] store_one_facts
  have 3: "user_banner store_one 2 1 True = Inl (HTTPException 404)" by blast
  from 1 2 3 show ?thesis by simp
qed


section \<open>Creating and patching banners\<close>

subsection \<open>The tag loop\<close>

lemma tags_loop_coll: "snd (tags_loop st coll tids) = coll @ map Tag tids"
  by (induction tids arbitrary: st coll) (simp_all add: session_get_tag_eq)

lemma tags_loop_rows: "set (tag_rows (fst (tags_loop st coll tids))) = set (tag_rows st) \<union> Tag ` set tids"
  by (induction tids arbitrary: st coll) (auto simp: session_get_tag_eq)

lemma tags_loop_distinct:
  "distinct (tag_rows st) \<Longrightarrow> distinct (tag_rows (fst (tags_loop st coll tids)))"
  by (induction tids arbitrary: st coll) (simp_all add: session_get_tag_eq)

lemma tags_loop_keeps_rows: "\<exists>new. tag_rows (fst (tags_loop st coll tids)) = tag_rows st @ new"
proof (induction tids arbitrary: st coll)
  case Nil
  then show ?case by simp
next
  case (Cons tid tids)
  show ?case
  proof (cases "Tag tid \<in> set (tag_rows st)")
    case True
    with Cons.IH[of st "coll @ [Tag tid]"] show ?thesis by (simp add: session_get_tag_eq)
  next
    case False
    from Cons.IH[of "st\<lparr>tag_rows := tag_rows st @ [Tag tid]\<rparr>" "coll @ [Tag tid]"]
    obtain new where "tag_rows (fst (tags_loop (st\<lparr>tag_rows := tag_rows st @ [Tag tid]\<rparr>) (coll @ [Tag tid]) tids))
        = tag_rows st @ [Tag tid] @ new" by auto
    with False show ?thesis by (simp add: session_get_tag_eq)
  qed
qed

lemma tags_loop_frame:
  "users (fst (tags_loop st coll tids)) = users st \<and>
   banners (fst (tags_loop st coll tids)) = banners st \<and>
   banner_seq (fst (tags_loop st coll tids)) = banner_seq st \<and>
   join_rank (fst (tags_loop st coll tids)) = join_rank st"
  by (induction tids arbitrary: st coll) (simp_all add: session_get_tag_eq)

lemma tags_loop_pair: "tags_loop st [] tids = (fst (tags_loop st [] tids), map Tag tids)"
  using tags_loop_coll[of st "[]" tids] by (simp add: prod_eq_iff)

subsection \<open>Lookup of a banner before and after an update\<close>

lemma find_banner_id: "find (\<lambda>b. banner_id b = bid) bs = Some banner \<Longrightarrow> banner_id banner = bid \<and> banner \<in> set bs"
  by (induction bs) (auto split: if_splits)

lemma find_after_update:
  "find (\<lambda>b. banner_id b = bid) bs = Some banner \<Longrightarrow> banner_id b' = bid \<Longrightarrow>
     find (\<lambda>b. banner_id b = bid) (map (\<lambda>b. if banner_id b = bid then b' else b) bs) = Some b'"
  by (induction bs) (auto split: if_splits)

lemma others_after_update:
  "filter (\<lambda>b. banner_id b \<noteq> bid) (map (\<lambda>b. if banner_id b = bid then b' else b) bs)
     = filter (\<lambda>b. banner_id b \<noteq> bid) bs" if "banner_id b' = bid"
  using that by (induction bs) auto

lemma ids_after_update:
  "banner_id b' = bid \<Longrightarrow> map banner_id (map (\<lambda>b. if banner_id b = bid then b' else b) bs) = map banner_id bs"
  by (induction bs) auto

subsection \<open>The field assignments\<close>

lemma patch_fields_kept:
  "banner_id (patch_fields b args now) = banner_id b"
  "tags (patch_fields b args now) = tags b"
  "created_at (patch_fields b args now) = created_at b"
  "updated_at (patch_fields b args now) = now"
  by (simp_all add: patch_fields_def Let_def split: option.splits)

lemma patch_fields_set:
  "feature_id (patch_fields b args now) = (case patch_feature_id args of None \<Rightarrow> feature_id b | Some f \<Rightarrow> f)"
  "content (patch_fields b args now) = (case patch_content args of None \<Rightarrow> content b | Some c \<Rightarrow> c)"
  "is_active (patch_fields b args now) = (case patch_is_active args of None \<Rightarrow> is_active b | Some a \<Rightarrow> a)"
  by (simp_all add: patch_fields_def Let_def split: option.splits)

lemma patch_banner_absent:
  "session_get_banner st bid = None \<Longrightarrow> patch_banner st args bid now = (st, Inl (HTTPException 404))"
  by (simp add: patch_banner_def)

lemma patch_banner_without_tags:
  assumes "session_get_banner st bid = Some banner" and "patch_tag_ids args = None"
  shows "patch_banner st args bid now =
     (st\<lparr>banners := map (\<lambda>b. if banner_id b = bid then patch_fields banner args now else b) (banners st)\<rparr>,
      Inr (Response 200))"
  using assms by (simp add: patch_banner_def)

lemma patch_banner_with_tags:
  assumes "session_get_banner st bid = Some banner" and "patch_tag_ids args = Some tids"
  shows "patch_banner st args bid now =
     ((fst (tags_loop st [] tids))\<lparr>banners :=
          map (\<lambda>b. if banner_id b = bid then patch_fields (banner\<lparr>tags := map Tag tids\<rparr>) args now else b)
            (banners st)\<rparr>,
      Inr (Response 200))"
proof -
  have "patch_banner st args bid now =
     ((fst (tags_loop st [] tids))\<lparr>banners :=
          map (\<lambda>b. if banner_id b = bid then patch_fields (banner\<lparr>tags := map Tag tids\<rparr>) args now else b)
            (banners (fst (tags_loop st [] tids)))\<rparr>,
      Inr (Response 200))"
    using assms by (simp add: patch_banner_def case_prod_beta tags_loop_coll)
  then show ?thesis by (simp add: tags_loop_frame)
qed

text \<open>What a successful patch leaves behind, for either form of the request.\<close>

lemma patch_banner_found:
  assumes g: "session_get_banner st bid = Some banner"
  shows "\<exists>st' b'. patch_banner st args bid now = (st', Inr (Response 200)) \<and>
           session_get_banner st' bid = Some b' \<and>
           b' = patch_fields (case patch_tag_ids args of None \<Rightarrow> banner
                              | Some tids \<Rightarrow> banner\<lparr>tags := map Tag tids\<rparr>) args now \<and>
           tag_rows st' = (case patch_tag_ids args of None \<Rightarrow> tag_rows st
                           | Some tids \<Rightarrow> tag_rows (fst (tags_loop st [] tids))) \<and>
           users st' = users st \<and> banner_seq st' = banner_seq st \<and>
           map banner_id (banners st') = map banner_id (banners st) \<and>
           filter (\<lambda>b. banner_id b \<noteq> bid) (banners st') = filter (\<lambda>b. banner_id b \<noteq> bid) (banners st)"
proof -
  from g have f: "find (\<lambda>b. banner_id b = bid) (banners st) = Some banner"
    by (simp add: session_get_banner_def)
  then have bid: "banner_id banner = bid" using find_banner_id by blast
  show ?thesis
  proof (cases "patch_tag_ids args")
    case None
    let ?b = "patch_fields banner args now"
    have i: "banner_id ?b = bid" using bid by (simp add: patch_fields_kept)
    show ?thesis
      using patch_banner_without_tags[OF g None, of now] None
        find_after_update[OF f i] others_after_update[OF i, of "banners st"] ids_after_update[OF i, of "banners st"]
      by (simp add: session_get_banner_def)
  next
    case (Some tids)
    let ?b = "patch_fields (banner\<lparr>tags := map Tag tids\<rparr>) args now"
    have i: "banner_id ?b = bid" using bid by (simp add: patch_fields_kept)
    show ?thesis
      using patch_banner_with_tags[OF g Some, of now] Some
        find_after_update[OF f i] others_after_update[OF i, of "banners st"] ids_after_update[OF i, of "banners st"]
      by (simp add: session_get_banner_def tags_loop_frame)
  qed
qed

lemma post_banner_eq:
  "post_banner st args nowc nowu =
     ((fst (tags_loop st [] (post_tag_ids args)))
        \<lparr>banners := banners st @
           [\<lparr>banner_id = banner_seq st, feature_id = post_feature_id args,
             tags = map Tag (post_tag_ids args), content = post_content args,
             is_active = post_is_active args, created_at = nowc, updated_at = nowu\<rparr>],
         banner_seq := banner_seq st + 1\<rparr>,
      Inr (JSONResponse (JDict [(''banner_id'', JInt (banner_seq st))]) HTTP_201_CREATED))"
  by (simp add: post_banner_def case_prod_beta tags_loop_coll tags_loop_frame Let_def)

lemma tags_registered_by_loop:
  "list_all (\<lambda>t. t \<in> set (tag_rows (fst (tags_loop st coll tids)))) (map Tag tids)"
  by (simp add: list_all_iff tags_loop_rows)

text \<open>
  Claim C3. A patch of a banner that does not exist raises 404 and leaves the store as
  it was. A patch of an existing banner answers 200; afterwards the banner has, for each
  of the four fields, the value of the request when the request carries one and its
  former value when it does not, \<open>updated_at\<close> is the time of the patch, the key and
  \<open>created_at\<close> are kept, and no other banner, no user and (without \<open>tag_ids\<close>) no tag
  row has changed.
\<close>

theorem patch_changes_only_present_fields:
  "(session_get_banner st bid = None \<longrightarrow>
      patch_banner st args bid now = (st, Inl (HTTPException HTTP_404_NOT_FOUND))) \<and>
   (session_get_banner st bid = Some banner \<longrightarrow>
      (\<exists>st' b'. patch_banner st args bid now = (st', Inr (Response HTTP_200_OK)) \<and>
         session_get_banner st' bid = Some b' \<and>
         banner_id b' = banner_id banner \<and> created_at b' = created_at banner \<and>
         updated_at b' = now \<and>
         feature_id b' = (case patch_feature_id args of None \<Rightarrow> feature_id banner | Some f \<Rightarrow> f) \<and>
         content b' = (case patch_content args of None \<Rightarrow> content banner | Some c \<Rightarrow> c) \<and>
         is_active b' = (case patch_is_active args of None \<Rightarrow> is_active banner | Some a \<Rightarrow> a) \<and>
         tags b' = (case patch_tag_ids args of None \<Rightarrow> tags banner | Some tids \<Rightarrow> map Tag tids) \<and>
         users st' = users st \<and> banner_seq st' = banner_seq st \<and>
         (patch_tag_ids args = None \<longrightarrow> tag_rows st' = tag_rows st) \<and>
         filter (\<lambda>b. banner_id b \<noteq> bid) (banners st')
           = filter (\<lambda>b. banner_id b \<noteq> bid) (banners st)))"
proof (intro conjI impI)
  assume "session_get_banner st bid = None"
  then show "patch_banner st args bid now = (st, Inl (HTTPException HTTP_404_NOT_FOUND))"
    by (rule patch_banner_absent)
next
  assume g: "session_get_banner st bid = Some banner"
  from patch_banner_found[OF g, of args now] obtain st' b' where
    p: "patch_banner st args bid now = (st', Inr (Response 200))" and
    s: "session_get_banner st' bid = Some b'" and
    b: "b' = patch_fields (case patch_tag_ids args of None \<Rightarrow> banner
                           | Some tids \<Rightarrow> banner\<lparr>tags := map Tag tids\<rparr>) args now" and
    r: "tag_rows st' = (case patch_tag_ids args of None \<Rightarrow> tag_rows st
                        | Some tids \<Rightarrow> tag_rows (fst (tags_loop st [] tids)))" and
    u: "users st' = users st" "banner_seq st' = banner_seq st" and
    f: "filter (\<lambda>b. banner_id b \<noteq> bid) (banners st') = filter (\<lambda>b. banner_id b \<noteq> bid) (banners st)"
    by blast
  have k: "banner_id b' = banner_id banner" "created_at b' = created_at banner" "updated_at b' = now"
    unfolding b by (simp_all add: patch_fields_kept split: option.splits)
  have v: "feature_id b' = (case patch_feature_id args of None \<Rightarrow> feature_id banner | Some f \<Rightarrow> f)"
    "content b' = (case patch_content args of None \<Rightarrow> content banner | Some c \<Rightarrow> c)"
    "is_active b' = (case patch_is_active args of None \<Rightarrow> is_active banner | Some a \<Rightarrow> a)"
    unfolding b by (simp_all add: patch_fields_set split: option.splits)
  have t: "tags b' = (case patch_tag_ids args of None \<Rightarrow> tags banner | Some tids \<Rightarrow> map Tag tids)"
    unfolding b by (simp add: patch_fields_kept split: option.splits)
  have n: "patch_tag_ids args = None \<longrightarrow> tag_rows st' = tag_rows st"
    using r by simp
  show "\<exists>st' b'. patch_banner st args bid now = (st', Inr (Response HTTP_200_OK)) \<and>
         session_get_banner st' bid = Some b' \<and>
         banner_id b' = banner_id banner \<and> created_at b' = created_at banner \<and>
         updated_at b' = now \<and>
         feature_id b' = (case patch_feature_id args of None \<Rightarrow> feature_id banner | Some f \<Rightarrow> f) \<and>
         content b' = (case patch_content args of None \<Rightarrow> content banner | Some c \<Rightarrow> c) \<and>
         is_active b' = (case patch_is_active args of None \<Rightarrow> is_active banner | Some a \<Rightarrow> a) \<and>
         tags b' = (case patch_tag_ids args of None \<Rightarrow> tags banner | Some tids \<Rightarrow> map Tag tids) \<and>
         users st' = users st \<and> banner_seq st' = banner_seq st \<and>
         (patch_tag_ids args = None \<longrightarrow> tag_rows st' = tag_rows st) \<and>
         filter (\<lambda>b. banner_id b \<noteq> bid) (banners st')
           = filter (\<lambda>b. banner_id b \<noteq> bid) (banners st)"
    using p s k v t u n f by (intro exI conjI) assumption+
qed

lemma store_one_lookup:
  "session_get_banner store_one 1 = Some banner_a"
  "session_get_banner store_one 7 = None"
  by (simp_all add: session_get_banner_def store_one_def banner_a_def)

lemma banner_a_fields:
  "feature_id banner_a = 1" "is_active banner_a" "tags banner_a = [Tag 1]"
  "content banner_a = ''first''"
  by (simp_all add: banner_a_def)

lemma content_only_fields:
  "patch_tag_ids content_only = None" "patch_feature_id content_only = None"
  "patch_content content_only = Some ''X''" "patch_is_active content_only = None"
  by (simp_all add: content_only_def)

text \<open>A patch with only \<open>content\<close> on the banner of \<open>store_one\<close>, and one on a missing key.\<close>

theorem patch_changes_only_present_fields_witness:
  "patch_banner store_one content_only 7 ''t9'' = (store_one, Inl (HTTPException 404)) \<and>
   (\<exists>st' b'. patch_banner store_one content_only 1 ''t9'' = (st', Inr (Response 200)) \<and>
      session_get_banner st' 1 = Some b' \<and> feature_id b' = 1 \<and> is_active b' \<and>
      tags b' = [Tag 1] \<and> content b' = ''X'' \<and> updated_at b' = ''t9'' \<and>
      tag_rows st' = tag_rows store_one)"
using patch_changes_only_present_fields[of store_one 7 content_only "''t9''" banner_a]
    patch_changes_only_present_fields[of store_one 1 content_only "''t9''" banner_a]
    store_one_lookup
  by (auto simp: content_only_fields banner_a_fields)

lemma no_fields_fields:
  "patch_tag_ids no_fields = None" "patch_feature_id no_fields = None"
  "patch_content no_fields = None" "patch_is_active no_fields = None"
  by (simp_all add: no_fields_def)

lemma patch_fields_no_fields: "patch_fields banner no_fields now = banner\<lparr>updated_at := now\<rparr>"
  by (simp add: patch_fields_def no_fields_fields)

text \<open>
  Claim C10. A patch in which every field is absent, on a banner that exists, answers
  200; the stored banner is the former one with \<open>updated_at\<close> set to the time of the
  patch and every other field as before, and the rest of the store is unchanged.
\<close>

theorem empty_patch_refreshes_updated_at:
  "session_get_banner st bid = Some banner \<longrightarrow>
     patch_banner st no_fields bid now =
       (st\<lparr>banners := map (\<lambda>b. if banner_id b = bid then banner\<lparr>updated_at := now\<rparr> else b)
                          (banners st)\<rparr>,
        Inr (Response HTTP_200_OK)) \<and>
     http_status (snd (patch_banner st no_fields bid now)) = 200 \<and>
     session_get_banner (fst (patch_banner st no_fields bid now)) bid
       = Some (banner\<lparr>updated_at := now\<rparr>)"
proof
  assume g: "session_get_banner st bid = Some banner"
  have p: "patch_banner st no_fields bid now =
       (st\<lparr>banners := map (\<lambda>b. if banner_id b = bid then banner\<lparr>updated_at := now\<rparr> else b)
                          (banners st)\<rparr>,
        Inr (Response HTTP_200_OK))"
    using patch_banner_without_tags[OF g no_fields_fields(1), of now]
    by (simp only: patch_fields_no_fields)
  from g have f: "find (\<lambda>b. banner_id b = bid) (banners st) = Some banner"
    by (simp add: session_get_banner_def)
  then have "banner_id (banner\<lparr>updated_at := now\<rparr>) = bid"
    using find_banner_id[of bid "banners st" banner] by simp
  from find_after_update[OF f this]
  have s: "session_get_banner (fst (patch_banner st no_fields bid now)) bid
       = Some (banner\<lparr>updated_at := now\<rparr>)"
    by (simp add: p session_get_banner_def)
  have h: "http_status (snd (patch_banner st no_fields bid now)) = 200"
    by (simp add: p)
  from p h s show "patch_banner st no_fields bid now =
       (st\<lparr>banners := map (\<lambda>b. if banner_id b = bid then banner\<lparr>updated_at := now\<rparr> else b)
                          (banners st)\<rparr>,
        Inr (Response HTTP_200_OK)) \<and>
     http_status (snd (patch_banner st no_fields bid now)) = 200 \<and>
     session_get_banner (fst (patch_banner st no_fields bid now)) bid
       = Some (banner\<lparr>updated_at := now\<rparr>)"
    by (intro conjI)
qed

text \<open>The empty patch on the banner of \<open>store_one\<close>.\<close>

theorem empty_patch_refreshes_updated_at_witness:
  "http_status (snd (patch_banner store_one no_fields 1 ''t9'')) = 200 \<and>
   session_get_banner (fst (patch_banner store_one no_fields 1 ''t9'')) 1
     = Some (banner_a\<lparr>updated_at := ''t9''\<rparr>)"
  using empty_patch_refreshes_updated_at[of store_one 1 banner_a "''t9''"] store_one_lookup(1)
  by blast

text \<open>
  Claim C4. A patch that carries \<open>tag_ids\<close> (the empty list included) on a banner that
  exists makes the supplied identifiers, in that order, the banner's tags; every
  supplied identifier is a row of \<open>tags\<close> afterwards, the rows that were there are kept
  and none is doubled, and a tag the banner had that is not among the supplied ones is
  no longer associated with it.
\<close>

theorem patch_tag_ids_replaces_tags:
  "session_get_banner st bid = Some banner \<and> patch_tag_ids args = Some tids \<longrightarrow>
     (\<exists>st' b'. patch_banner st args bid now = (st', Inr (Response HTTP_200_OK)) \<and>
        session_get_banner st' bid = Some b' \<and>
        tags b' = map Tag tids \<and>
        set (tag_rows st') = set (tag_rows st) \<union> Tag ` set tids \<and>
        (distinct (tag_rows st) \<longrightarrow> distinct (tag_rows st')) \<and>
        (\<forall>t \<in> set (tags banner). t \<notin> Tag ` set tids \<longrightarrow> t \<notin> set (tags b')))"
proof
  assume a: "session_get_banner st bid = Some banner \<and> patch_tag_ids args = Some tids"
  then have g: "session_get_banner st bid = Some banner" and i: "patch_tag_ids args = Some tids"
    by simp_all
  from patch_banner_found[OF g, of args now] obtain st' b' where
    p: "patch_banner st args bid now = (st', Inr (Response 200))" and
    s: "session_get_banner st' bid = Some b'" and
    b: "b' = patch_fields (case patch_tag_ids args of None \<Rightarrow> banner
                           | Some tids \<Rightarrow> banner\<lparr>tags := map Tag tids\<rparr>) args now" and
    r: "tag_rows st' = (case patch_tag_ids args of None \<Rightarrow> tag_rows st
                        | Some tids \<Rightarrow> tag_rows (fst (tags_loop st [] tids)))"
    by blast
  have t: "tags b' = map Tag tids" unfolding b by (simp add: i patch_fields_kept)
  have r': "tag_rows st' = tag_rows (fst (tags_loop st [] tids))" using r by (simp add: i)
  have rows: "set (tag_rows st') = set (tag_rows st) \<union> Tag ` set tids"
    unfolding r' by (rule tags_loop_rows)
  have d: "distinct (tag_rows st) \<longrightarrow> distinct (tag_rows st')"
    unfolding r' using tags_loop_distinct by blast
  have gone: "\<forall>t \<in> set (tags banner). t \<notin> Tag ` set tids \<longrightarrow> t \<notin> set (tags b')"
    by (simp add: t)
  show "\<exists>st' b'. patch_banner st args bid now = (st', Inr (Response HTTP_200_OK)) \<and>
        session_get_banner st' bid = Some b' \<and>
        tags b' = map Tag tids \<and>
        set (tag_rows st') = set (tag_rows st) \<union> Tag ` set tids \<and>
        (distinct (tag_rows st) \<longrightarrow> distinct (tag_rows st')) \<and>
        (\<forall>t \<in> set (tags banner). t \<notin> Tag ` set tids \<longrightarrow> t \<notin> set (tags b'))"
    using p s t rows d gone by (intro exI conjI) assumption+
qed

lemma store_default_lookup: "session_get_banner store_default 1 = Some banner_c"
  by (simp add: session_get_banner_def store_default_def banner_c_def)

lemma store_default_rows: "tag_rows store_default = [Tag 1, Tag 2, Tag 3]"
  by (simp add: store_default_def)

lemma banner_c_tags: "tags banner_c = [Tag 1, Tag 2, Tag 3]"
  by (simp add: banner_c_def)

lemma tags_only_fields: "patch_tag_ids tags_only = Some [9]"
  by (simp add: tags_only_def)

text \<open>
  The patch \<open>{tag_ids: [9]}\<close> on the banner with the tags 1, 2, 3: tag 9 is created and
  is the only tag of the banner.
\<close>

theorem patch_tag_ids_replaces_tags_witness:
  "\<exists>st' b'. patch_banner store_default tags_only 1 ''t9'' = (st', Inr (Response 200)) \<and>
      session_get_banner st' 1 = Some b' \<and> tags b' = [Tag 9] \<and>
      set (tag_rows st') = {Tag 1, Tag 2, Tag 3, Tag 9} \<and> Tag 2 \<notin> set (tags b')"
proof -
  from patch_tag_ids_replaces_tags[of store_default 1 banner_c tags_only "[9]" "''t9''"]
    store_default_lookup tags_only_fields
  obtain st' b' where p: "patch_banner store_default tags_only 1 ''t9'' = (st', Inr (Response 200))"
    and s: "session_get_banner st' 1 = Some b'" and t: "tags b' = map Tag [9]"
    and r: "set (tag_rows st') = set (tag_rows store_default) \<union> Tag ` set [9]"
    by blast
  have t': "tags b' = [Tag 9]" using t by simp
  have r': "set (tag_rows st') = {Tag 1, Tag 2, Tag 3, Tag 9}"
    using r by (auto simp: store_default_rows)
  have n: "Tag 2 \<notin> set (tags b')" by (simp add: t')
  from p s t' r' n show ?thesis by (intro exI conjI) assumption+
qed

lemma tag_ids_of_tags: "tag_id ` set (map Tag tids) = set tids"
  by (induction tids) auto

text \<open>
  Claim C9, as the code has it. After \<open>post_banner\<close>, and after a patch with
  \<open>tag_ids\<close>, the identifiers of the banner's tags are the supplied identifiers, as a
  set, and every tag of the banner is a row of \<open>tags\<close>, where no row is doubled. An
  identifier that a create request supplies more than once does not collapse: the new
  banner is associated with that tag as often as the request supplies it.
\<close>

theorem tags_are_the_supplied_ones:
  "(\<exists>st' new.
      post_banner st pargs nowc nowu
        = (st', Inr (JSONResponse (JDict [(''banner_id'', JInt (banner_seq st))]) HTTP_201_CREATED)) \<and>
      banners st' = banners st @ [new] \<and>
      tag_id ` set (tags new) = set (post_tag_ids pargs) \<and>
      (\<forall>i. count_list (map tag_id (tags new)) i = count_list (post_tag_ids pargs) i) \<and>
      list_all (\<lambda>t. t \<in> set (tag_rows st')) (tags new) \<and>
      (distinct (tag_rows st) \<longrightarrow> distinct (tag_rows st'))) \<and>
   (session_get_banner st bid = Some banner \<and> patch_tag_ids args = Some tids \<longrightarrow>
      (\<exists>st' b'. patch_banner st args bid now = (st', Inr (Response HTTP_200_OK)) \<and>
         session_get_banner st' bid = Some b' \<and>
         tag_id ` set (tags b') = set tids \<and>
         list_all (\<lambda>t. t \<in> set (tag_rows st')) (tags b') \<and>
         (distinct (tag_rows st) \<longrightarrow> distinct (tag_rows st'))))"
proof (intro conjI impI)
  let ?st1 = "fst (tags_loop st [] (post_tag_ids pargs))"
  let ?new = "\<lparr>banner_id = banner_seq st, feature_id = post_feature_id pargs,
             tags = map Tag (post_tag_ids pargs), content = post_content pargs,
             is_active = post_is_active pargs, created_at = nowc, updated_at = nowu\<rparr>"
  let ?st' = "?st1\<lparr>banners := banners st @ [?new], banner_seq := banner_seq st + 1\<rparr>"
  have p: "post_banner st pargs nowc nowu
        = (?st', Inr (JSONResponse (JDict [(''banner_id'', JInt (banner_seq st))]) HTTP_201_CREATED))"
    by (rule post_banner_eq)
  have bs: "banners ?st' = banners st @ [?new]" by simp
  have t: "tags ?new = map Tag (post_tag_ids pargs)" by simp
  have ids: "tag_id ` set (tags ?new) = set (post_tag_ids pargs)"
    unfolding t by (rule tag_ids_of_tags)
  have "map tag_id (tags ?new) = post_tag_ids pargs" by (simp add: comp_def)
  then have cnt: "\<forall>i. count_list (map tag_id (tags ?new)) i = count_list (post_tag_ids pargs) i"
    by (simp only:) simp
  have rows: "tag_rows ?st' = tag_rows ?st1" by simp
  have reg: "list_all (\<lambda>t. t \<in> set (tag_rows ?st')) (tags ?new)"
    unfolding t rows by (rule tags_registered_by_loop)
  have d: "distinct (tag_rows st) \<longrightarrow> distinct (tag_rows ?st')"
    unfolding rows using tags_loop_distinct by blast
  show "\<exists>st' new.
      post_banner st pargs nowc nowu
        = (st', Inr (JSONResponse (JDict [(''banner_id'', JInt (banner_seq st))]) HTTP_201_CREATED)) \<and>
      banners st' = banners st @ [new] \<and>
      tag_id ` set (tags new) = set (post_tag_ids pargs) \<and>
      (\<forall>i. count_list (map tag_id (tags new)) i = count_list (post_tag_ids pargs) i) \<and>
      list_all (\<lambda>t. t \<in> set (tag_rows st')) (tags new) \<and>
      (distinct (tag_rows st) \<longrightarrow> distinct (tag_rows st'))"
    using p bs ids cnt reg d by (intro exI conjI) assumption+
next
  assume a: "session_get_banner st bid = Some banner \<and> patch_tag_ids args = Some tids"
  then have g: "session_get_banner st bid = Some banner" and i: "patch_tag_ids args = Some tids"
    by simp_all
  from patch_banner_found[OF g, of args now] obtain st' b' where
    p: "patch_banner st args bid now = (st', Inr (Response 200))" and
    s: "session_get_banner st' bid = Some b'" and
    b: "b' = patch_fields (case patch_tag_ids args of None \<Rightarrow> banner
                           | Some tids \<Rightarrow> banner\<lparr>tags := map Tag tids\<rparr>) args now" and
    r: "tag_rows st' = (case patch_tag_ids args of None \<Rightarrow> tag_rows st
                        | Some tids \<Rightarrow> tag_rows (fst (tags_loop st [] tids)))"
    by blast
  have t: "tags b' = map Tag tids" unfolding b by (simp add: i patch_fields_kept)
  have r': "tag_rows st' = tag_rows (fst (tags_loop st [] tids))" using r by (simp add: i)
  have ids: "tag_id ` set (tags b') = set tids" unfolding t by (rule tag_ids_of_tags)
  have reg: "list_all (\<lambda>t. t \<in> set (tag_rows st')) (tags b')"
    unfolding t r' by (rule tags_registered_by_loop)
  have d: "distinct (tag_rows st) \<longrightarrow> distinct (tag_rows st')"
    unfolding r' using tags_loop_distinct by blast
  show "\<exists>st' b'. patch_banner st args bid now = (st', Inr (Response HTTP_200_OK)) \<and>
         session_get_banner st' bid = Some b' \<and>
         tag_id ` set (tags b') = set tids \<and>
         list_all (\<lambda>t. t \<in> set (tag_rows st')) (tags b') \<and>
         (distinct (tag_rows st) \<longrightarrow> distinct (tag_rows st'))"
    using p s ids reg d by (intro exI conjI) assumption+
qed

lemma tags_repeated_fields: "patch_tag_ids tags_repeated = Some [9, 9, 1]"
  by (simp add: tags_repeated_def)

lemma store_default_distinct: "distinct (tag_rows store_default)"
  by (simp add: store_default_rows)

lemma DEFAULT_BANNER_fields: "post_tag_ids DEFAULT_BANNER = [1, 2, 3]"
  by (simp add: DEFAULT_BANNER_def)

text \<open>
  The patch \<open>{tag_ids: [9, 9, 1]}\<close> on the banner with the tags 1, 2, 3: the identifiers
  of its tags are 1 and 9 afterwards, every one of its tags is a row of \<open>tags\<close>, and no
  row of \<open>tags\<close> is doubled. The banner that \<open>DEFAULT_BANNER\<close> creates in the same store
  has tags with the identifiers 1, 2 and 3.
\<close>

theorem tags_are_the_supplied_ones_witness:
  "(\<exists>st' b'. patch_banner store_default tags_repeated 1 ''t9'' = (st', Inr (Response 200)) \<and>
      session_get_banner st' 1 = Some b' \<and> tag_id ` set (tags b') = {1, 9} \<and>
      list_all (\<lambda>t. t \<in> set (tag_rows st')) (tags b') \<and> distinct (tag_rows st')) \<and>
   (\<exists>new. banners (fst (post_banner store_default DEFAULT_BANNER ''t1'' ''t1''))
        = banners store_default @ [new] \<and>
      tag_id ` set (tags new) = {1, 2, 3} \<and> count_list (map tag_id (tags new)) 2 = 1)"
proof -
  note g = tags_are_the_supplied_ones[of store_default DEFAULT_BANNER "''t1''" "''t1''" 1 banner_c
      tags_repeated "[9, 9, 1]" "''t9''"]
  from g store_default_lookup tags_repeated_fields store_default_distinct
  obtain st' b' where p: "patch_banner store_default tags_repeated 1 ''t9'' = (st', Inr (Response 200))"
    and s: "session_get_banner st' 1 = Some b'" and t: "tag_id ` set (tags b') = set [9, 9, 1]"
    and r: "list_all (\<lambda>t. t \<in> set (tag_rows st')) (tags b')"
    and d: "distinct (tag_rows st')"
    by blast
  have t': "tag_id ` set (tags b') = {1, 9}" using t by auto
  have 1: "\<exists>st' b'. patch_banner store_default tags_repeated 1 ''t9'' = (st', Inr (Response 200)) \<and>
      session_get_banner st' 1 = Some b' \<and> tag_id ` set (tags b') = {1, 9} \<and>
      list_all (\<lambda>t. t \<in> set (tag_rows st')) (tags b') \<and> distinct (tag_rows st')"
    using p s t' r d by (intro exI conjI) assumption+
  from g obtain st2 new where
    q: "post_banner store_default DEFAULT_BANNER ''t1'' ''t1''
        = (st2, Inr (JSONResponse (JDict [(''banner_id'', JInt (banner_seq store_default))]) HTTP_201_CREATED))"
    and bs: "banners st2 = banners store_default @ [new]"
    and ids: "tag_id ` set (tags new) = set (post_tag_ids DEFAULT_BANNER)"
    and cnt: "\<forall>i. count_list (map tag_id (tags new)) i = count_list (post_tag_ids DEFAULT_BANNER) i"
    by blast
  have bs': "banners (fst (post_banner store_default DEFAULT_BANNER ''t1'' ''t1''))
        = banners store_default @ [new]"
    using bs by (simp add: q)
  have ids': "tag_id ` set (tags new) = {1, 2, 3}"
    using ids by (simp add: DEFAULT_BANNER_fields)
  have cnt': "count_list (map tag_id (tags new)) 2 = 1"
    using cnt by (simp add: DEFAULT_BANNER_fields)
  have 2: "\<exists>new. banners (fst (post_banner store_default DEFAULT_BANNER ''t1'' ''t1''))
        = banners store_default @ [new] \<and>
      tag_id ` set (tags new) = {1, 2, 3} \<and> count_list (map tag_id (tags new)) 2 = 1"
    using bs' ids' cnt' by (intro exI conjI) assumption+
  from 1 2 show ?thesis by (rule conjI)
qed

lemma twice_tagged_fields:
  "post_tag_ids twice_tagged = [1, 1]" "post_feature_id twice_tagged = 1"
  "post_content twice_tagged = ''c''" "post_is_active twice_tagged"
  by (simp_all add: twice_tagged_def)

lemma empty_store_fields:
  "tag_rows empty_store = []" "banners empty_store = []" "banner_seq empty_store = 1"
  "join_rank empty_store = table_order"
  by (simp_all add: empty_store_def)

lemma loop_twice_tagged: "tag_rows (fst (tags_loop empty_store [] [1, 1])) = [Tag 1]"
  by (simp add: session_get_tag_eq empty_store_fields)

text \<open>
  Claim C9 as the specification states it fails for a banner created with the tag list
  \<open>[1, 1]\<close> in an empty database: tag 1 is one row of \<open>tags\<close>, and the banner is
  associated with it twice.
\<close>

theorem repeated_tag_counterexample:
  "tag_rows (fst (post_banner empty_store twice_tagged ''t1'' ''t1'')) = [Tag 1] \<and>
   map tags (banners (fst (post_banner empty_store twice_tagged ''t1'' ''t1''))) = [[Tag 1, Tag 1]]"
  by (simp add: post_banner_eq twice_tagged_fields empty_store_fields loop_twice_tagged
      del: tags_loop.simps)

section \<open>Resolution with several matching banners\<close>

lemma first_post_fields:
  "post_tag_ids first_post = [1]" "post_feature_id first_post = 1"
  "post_content first_post = ''first''" "post_is_active first_post"
  by (simp_all add: first_post_def)

lemma second_post_fields:
  "post_tag_ids second_post = [1]" "post_feature_id second_post = 1"
  "post_content second_post = ''second''" "post_is_active second_post"
  by (simp_all add: second_post_def)

lemma post_in_empty_tables:
  assumes "tag_rows st = []" and "banners st = []" and "banner_seq st = 1"
  shows "tag_rows (fst (post_banner st first_post ''t1'' ''t1'')) = [Tag 1]"
    and "banners (fst (post_banner st first_post ''t1'' ''t1'')) = [banner_a]"
    and "banner_seq (fst (post_banner st first_post ''t1'' ''t1'')) = 2"
    and "join_rank (fst (post_banner st first_post ''t1'' ''t1'')) = join_rank st"
  using assms
  by (simp_all add: post_banner_eq first_post_fields session_get_tag_eq tags_loop_frame banner_a_def)

lemma post_after_one:
  assumes "tag_rows st = [Tag 1]" and "banners st = [banner_a]" and "banner_seq st = 2"
  shows "tag_rows (fst (post_banner st second_post ''t2'' ''t2'')) = [Tag 1]"
    and "banners (fst (post_banner st second_post ''t2'' ''t2'')) = [banner_a, banner_b]"
    and "join_rank (fst (post_banner st second_post ''t2'' ''t2'')) = join_rank st"
  using assms
  by (simp_all add: post_banner_eq second_post_fields session_get_tag_eq tags_loop_frame banner_b_def)

lemma two_posts_fields:
  assumes "tag_rows st = []" and "banners st = []" and "banner_seq st = 1"
  shows "tag_rows (two_posts st) = [Tag 1]"
    and "banners (two_posts st) = [banner_a, banner_b]"
    and "join_rank (two_posts st) = join_rank st"
  unfolding two_posts_def
  using post_after_one[OF post_in_empty_tables(1,2,3)[OF assms]] post_in_empty_tables(4)[OF assms]
  by simp_all

lemma banner_b_fields:
  "feature_id banner_b = 1" "is_active banner_b" "tags banner_b = [Tag 1]"
  "content banner_b = ''second''"
  by (simp_all add: banner_b_def)

lemma banner_ab_ids: "banner_id banner_a = 1" "banner_id banner_b = 2"
  by (simp_all add: banner_a_def banner_b_def)

lemma banner_ab_match: "banner_matches 1 1 banner_a" "banner_matches 1 1 banner_b"
  by (simp_all add: banner_matches_def banner_a_fields banner_b_fields)

lemma pair_rows:
  assumes "banners st = [x, y]"
    and x: "feature_id x = 1" "is_active x" "tags x = [Tag 1]"
    and y: "feature_id y = 1" "is_active y" "tags y = [Tag 1]"
  shows "select_banner_join_tags st (\<lambda>b t. feature_id b = 1 \<and> tag_id t = 1 \<and> is_active b)
     = map fst (sort_key (\<lambda>(b, t). join_rank st b t) [(x, Tag 1), (y, Tag 1)])"
proof -
  have j: "join_rows st = sort_key (\<lambda>(b, t). join_rank st b t) [(x, Tag 1), (y, Tag 1)]"
    by (simp add: join_rows_def assms)
  have "\<forall>p \<in> set (join_rows st). (case p of (b, t) \<Rightarrow> feature_id b = 1 \<and> tag_id t = 1 \<and> is_active b)"
    unfolding j by (simp add: x y)
  then have "filter (\<lambda>(b, t). feature_id b = 1 \<and> tag_id t = 1 \<and> is_active b) (join_rows st) = join_rows st"
    by (simp only: filter_True)
  then show ?thesis by (simp only: select_banner_join_tags_def j)
qed

lemma two_posts_rows:
  assumes "banners st = [banner_a, banner_b]"
  shows "select_banner_join_tags st (\<lambda>b t. feature_id b = 1 \<and> tag_id t = 1 \<and> is_active b)
     = map fst (sort_key (\<lambda>(b, t). join_rank st b t) [(banner_a, Tag 1), (banner_b, Tag 1)])"
  using assms by (rule pair_rows) (simp_all add: banner_a_fields banner_b_fields)

lemma two_posts_registered:
  assumes "tag_rows st = [Tag 1]" and "banners st = [banner_a, banner_b]"
  shows "tags_registered st" and "filter (banner_matches 1 1) (banners st) = [banner_a, banner_b]"
  by (simp_all add: tags_registered_def assms banner_a_fields banner_b_fields banner_ab_match)

text \<open>
  Claim C2, as the code has it. With one or more matching banners, \<open>user_banner\<close>
  answers 200 with the content of a matching banner: the banner of the first row that
  the engine returns for the query, which has no ORDER BY. That banner has the lowest
  identifier among the matches when the engine returns the rows by ascending banner
  identifier.
\<close>

theorem resolve_first_returned_match:
  "tags_registered st \<and> filter (banner_matches fid tid) (banners st) \<noteq> [] \<longrightarrow>
     (\<exists>b rest.
        select_banner_join_tags st (\<lambda>b t. feature_id b = fid \<and> tag_id t = tid \<and> is_active b)
          = b # rest \<and>
        b \<in> set (banners st) \<and> banner_matches fid tid b \<and>
        user_banner st tid fid ulr = Inr (JSONResponse (JStr (content b)) HTTP_200_OK) \<and>
        (sorted (map banner_id (b # rest)) \<longrightarrow>
           (\<forall>c \<in> set (banners st). banner_matches fid tid c \<longrightarrow> banner_id b \<le> banner_id c)))"
proof
  let ?rows = "select_banner_join_tags st (\<lambda>b t. feature_id b = fid \<and> tag_id t = tid \<and> is_active b)"
  assume a: "tags_registered st \<and> filter (banner_matches fid tid) (banners st) \<noteq> []"
  then have reg: "tags_registered st" and ne: "filter (banner_matches fid tid) (banners st) \<noteq> []"
    by simp_all
  from resolve_rows_Cons[OF ne] obtain b rest
    where r: "?rows = b # rest" and m: "b \<in> set (filter (banner_matches fid tid) (banners st))"
    by blast
  from m have bm: "b \<in> set (banners st)" "banner_matches fid tid b" by simp_all
  from registered_match[OF reg m] have t: "Tag tid \<in> set (tag_rows st)" .
  have u: "user_banner st tid fid ulr = Inr (JSONResponse (JStr (content b)) HTTP_200_OK)"
    using user_banner_first_row[OF t r] by simp
  have l: "sorted (map banner_id (b # rest)) \<longrightarrow>
           (\<forall>c \<in> set (banners st). banner_matches fid tid c \<longrightarrow> banner_id b \<le> banner_id c)"
  proof (intro impI ballI)
    fix c
    assume s: "sorted (map banner_id (b # rest))" and c: "c \<in> set (banners st)"
      and cm: "banner_matches fid tid c"
    from c cm have "c \<in> set (filter (banner_matches fid tid) (banners st))" by simp
    then have "c \<in> set ?rows" by (simp only: resolve_rows_set)
    then have "c \<in> set (b # rest)" by (simp only: r)
    with s show "banner_id b \<le> banner_id c" by auto
  qed
  from r bm u l show "\<exists>b rest. ?rows = b # rest \<and>
        b \<in> set (banners st) \<and> banner_matches fid tid b \<and>
        user_banner st tid fid ulr = Inr (JSONResponse (JStr (content b)) HTTP_200_OK) \<and>
        (sorted (map banner_id (b # rest)) \<longrightarrow>
           (\<forall>c \<in> set (banners st). banner_matches fid tid c \<longrightarrow> banner_id b \<le> banner_id c))"
    by (intro exI conjI) assumption+
qed

lemma two_posts_in_table_order:
  "tag_rows (two_posts empty_store) = [Tag 1]"
  "banners (two_posts empty_store) = [banner_a, banner_b]"
  "join_rank (two_posts empty_store) = table_order"
  using two_posts_fields[of empty_store] by (simp_all add: empty_store_fields)

lemma table_order_rows:
  "sort_key (\<lambda>(b, t). table_order b t) [(banner_a, Tag 1), (banner_b, Tag 1)]
     = [(banner_a, Tag 1), (banner_b, Tag 1)]"
  by (simp add: table_order_def)

text \<open>
  Two banners of feature 1 with tag 1 are created in an empty database whose engine
  returns the join in the order of the tables, which is by ascending identifier here:
  the answer is the content of the banner with the lowest identifier.
\<close>

theorem resolve_first_returned_match_witness:
  "user_banner (two_posts empty_store) 1 1 True = Inr (JSONResponse (JStr ''first'') 200) \<and>
   (\<exists>b. b \<in> set (banners (two_posts empty_store)) \<and> banner_matches 1 1 b \<and>
        user_banner (two_posts empty_store) 1 1 True = Inr (JSONResponse (JStr (content b)) 200) \<and>
        banner_id b \<le> banner_id banner_a \<and> banner_id b \<le> banner_id banner_b)"
proof -
  let ?st = "two_posts empty_store"
  note f = two_posts_in_table_order
  have rows: "select_banner_join_tags ?st (\<lambda>b t. feature_id b = 1 \<and> tag_id t = 1 \<and> is_active b)
      = [banner_a, banner_b]"
    using two_posts_rows[OF f(2)] by (simp only: f(3) table_order_rows) simp
  from resolve_first_returned_match[of ?st 1 1 True] two_posts_registered[OF f(1) f(2)]
  obtain b rest where
    r: "select_banner_join_tags ?st (\<lambda>b t. feature_id b = 1 \<and> tag_id t = 1 \<and> is_active b) = b # rest"
    and bm: "b \<in> set (banners ?st)" "banner_matches 1 1 b"
    and u: "user_banner ?st 1 1 True = Inr (JSONResponse (JStr (content b)) 200)"
    and l: "sorted (map banner_id (b # rest)) \<longrightarrow>
           (\<forall>c \<in> set (banners ?st). banner_matches 1 1 c \<longrightarrow> banner_id b \<le> banner_id c)"
    by auto
  from r rows have br: "b = banner_a" "rest = [banner_b]" by simp_all
  have "sorted (map banner_id (b # rest))" by (simp add: br banner_ab_ids)
  with l have least: "\<forall>c \<in> set (banners ?st). banner_matches 1 1 c \<longrightarrow> banner_id b \<le> banner_id c"
    by blast
  have la: "banner_id b \<le> banner_id banner_a" and lb: "banner_id b \<le> banner_id banner_b"
    using least banner_ab_match by (simp_all add: f(2))
  have u1: "user_banner ?st 1 1 True = Inr (JSONResponse (JStr ''first'') 200)"
    using u by (simp add: br banner_a_fields)
  have "\<exists>b. b \<in> set (banners ?st) \<and> banner_matches 1 1 b \<and>
        user_banner ?st 1 1 True = Inr (JSONResponse (JStr (content b)) 200) \<and>
        banner_id b \<le> banner_id banner_a \<and> banner_id b \<le> banner_id banner_b"
    using bm u la lb by (intro exI conjI) assumption+
  with u1 show ?thesis by (rule conjI)
qed

subsection \<open>The three requests\<close>

lemma other_tag_post_fields:
  "post_tag_ids other_tag_post = [2]" "post_feature_id other_tag_post = 1"
  "post_content other_tag_post = ''first''" "post_is_active other_tag_post"
  by (simp_all add: other_tag_post_def)

lemma retag_fields:
  "patch_tag_ids retag = Some [1]" "patch_feature_id retag = None"
  "patch_content retag = None" "patch_is_active retag = None"
  by (simp_all add: retag_def)

lemma post_other_tag:
  assumes "tag_rows st = []" and "banners st = []" and "banner_seq st = 1"
  shows "tag_rows (fst (post_banner st other_tag_post ''t1'' ''t1'')) = [Tag 2]"
    and "banners (fst (post_banner st other_tag_post ''t1'' ''t1'')) = [banner_a\<lparr>tags := [Tag 2]\<rparr>]"
    and "banner_seq (fst (post_banner st other_tag_post ''t1'' ''t1'')) = 2"
    and "join_rank (fst (post_banner st other_tag_post ''t1'' ''t1'')) = join_rank st"
  using assms
  by (simp_all add: post_banner_eq other_tag_post_fields session_get_tag_eq tags_loop_frame banner_a_def)

lemma post_after_other_tag:
  assumes "tag_rows st = [Tag 2]" and "banners st = [banner_a\<lparr>tags := [Tag 2]\<rparr>]" and "banner_seq st = 2"
  shows "tag_rows (fst (post_banner st second_post ''t2'' ''t2'')) = [Tag 2, Tag 1]"
    and "banners (fst (post_banner st second_post ''t2'' ''t2'')) = [banner_a\<lparr>tags := [Tag 2]\<rparr>, banner_b]"
    and "join_rank (fst (post_banner st second_post ''t2'' ''t2'')) = join_rank st"
  using assms
  by (simp_all add: post_banner_eq second_post_fields session_get_tag_eq tags_loop_frame banner_b_def)

lemma retag_first_banner:
  assumes r: "tag_rows st = [Tag 2, Tag 1]" and b: "banners st = [banner_a\<lparr>tags := [Tag 2]\<rparr>, banner_b]"
  shows "tag_rows (fst (patch_banner st retag 1 ''t3'')) = [Tag 2, Tag 1]"
    and "banners (fst (patch_banner st retag 1 ''t3'')) = [banner_a\<lparr>updated_at := ''t3''\<rparr>, banner_b]"
    and "join_rank (fst (patch_banner st retag 1 ''t3'')) = join_rank st"
proof -
  have g: "session_get_banner st 1 = Some (banner_a\<lparr>tags := [Tag 2]\<rparr>)"
    by (simp add: session_get_banner_def b banner_ab_ids)
  have l: "tag_rows (fst (tags_loop st [] [1])) = [Tag 2, Tag 1]"
    by (simp add: session_get_tag_eq r)
  have f: "patch_fields (banner_a\<lparr>tags := [Tag 1]\<rparr>) retag ''t3''
      = banner_a\<lparr>updated_at := ''t3''\<rparr>"
    by (simp add: patch_fields_def retag_fields banner_a_def)
  note p = patch_banner_with_tags[OF g retag_fields(1), of "''t3''"]
  show "tag_rows (fst (patch_banner st retag 1 ''t3'')) = [Tag 2, Tag 1]"
    unfolding p using l by simp
  show "banners (fst (patch_banner st retag 1 ''t3'')) = [banner_a\<lparr>updated_at := ''t3''\<rparr>, banner_b]"
    unfolding p by (simp add: b banner_ab_ids f del: tags_loop.simps)
  show "join_rank (fst (patch_banner st retag 1 ''t3'')) = join_rank st"
    unfolding p by (simp add: tags_loop_frame del: tags_loop.simps)
qed

lemma three_requests_fields:
  assumes "tag_rows st = []" and "banners st = []" and "banner_seq st = 1"
  shows "tag_rows (three_requests st) = [Tag 2, Tag 1]"
    and "banners (three_requests st) = [banner_a\<lparr>updated_at := ''t3''\<rparr>, banner_b]"
    and "join_rank (three_requests st) = join_rank st"
proof -
  note one = post_other_tag[OF assms]
  note two = post_after_other_tag[OF one(1,2,3)]
  note three = retag_first_banner[OF two(1,2)]
  show "tag_rows (three_requests st) = [Tag 2, Tag 1]"
    unfolding three_requests_def by (rule three(1))
  show "banners (three_requests st) = [banner_a\<lparr>updated_at := ''t3''\<rparr>, banner_b]"
    unfolding three_requests_def by (rule three(2))
  show "join_rank (three_requests st) = join_rank st"
    unfolding three_requests_def by (simp only: three(3) two(3) one(4))
qed

lemma three_requests_in_association_order:
  "tag_rows (three_requests (empty_store\<lparr>join_rank := association_order\<rparr>)) = [Tag 2, Tag 1]"
  "banners (three_requests (empty_store\<lparr>join_rank := association_order\<rparr>))
     = [banner_a\<lparr>updated_at := ''t3''\<rparr>, banner_b]"
  "join_rank (three_requests (empty_store\<lparr>join_rank := association_order\<rparr>)) = association_order"
  using three_requests_fields[of "empty_store\<lparr>join_rank := association_order\<rparr>"]
  by (simp_all add: empty_store_fields)

lemma patched_banner_a_fields:
  "banner_id (banner_a\<lparr>updated_at := ''t3''\<rparr>) = 1"
  "feature_id (banner_a\<lparr>updated_at := ''t3''\<rparr>) = 1" "is_active (banner_a\<lparr>updated_at := ''t3''\<rparr>)"
  "tags (banner_a\<lparr>updated_at := ''t3''\<rparr>) = [Tag 1]"
  "content (banner_a\<lparr>updated_at := ''t3''\<rparr>) = ''first''"
  by (simp_all add: banner_a_fields banner_ab_ids)

lemma association_order_rows:
  "sort_key (\<lambda>(b, t). association_order b t) [(banner_a\<lparr>updated_at := ''t3''\<rparr>, Tag 1), (banner_b, Tag 1)]
     = [(banner_b, Tag 1), (banner_a\<lparr>updated_at := ''t3''\<rparr>, Tag 1)]"
  by (simp add: association_order_def banner_ab_ids)

text \<open>
  Claim C2 as the specification states it fails after the three requests, in an empty
  database whose engine returns the join in the order of the rows of \<open>banner_tags\<close>:
  both banners match feature 1 and tag 1, the one with the lowest identifier has the
  content \<open>first\<close>, and the answer is the content of the other one, whose association
  with tag 1 is the older row.
\<close>

theorem resolve_lowest_identifier_counterexample:
  "filter (banner_matches 1 1) (banners (three_requests (empty_store\<lparr>join_rank := association_order\<rparr>)))
     = [banner_a\<lparr>updated_at := ''t3''\<rparr>, banner_b] \<and>
   banner_id (banner_a\<lparr>updated_at := ''t3''\<rparr>) < banner_id banner_b \<and>
   content (banner_a\<lparr>updated_at := ''t3''\<rparr>) = ''first'' \<and>
   user_banner (three_requests (empty_store\<lparr>join_rank := association_order\<rparr>)) 1 1 True
     = Inr (JSONResponse (JStr ''second'') HTTP_200_OK)"
proof -
  let ?st = "three_requests (empty_store\<lparr>join_rank := association_order\<rparr>)"
  note f = three_requests_in_association_order
  have "select_banner_join_tags ?st (\<lambda>b t. feature_id b = 1 \<and> tag_id t = 1 \<and> is_active b)
      = map fst (sort_key (\<lambda>(b, t). join_rank ?st b t)
          [(banner_a\<lparr>updated_at := ''t3''\<rparr>, Tag 1), (banner_b, Tag 1)])"
    using f(2) by (rule pair_rows) (simp_all add: patched_banner_a_fields banner_b_fields)
  then have rows: "select_banner_join_tags ?st (\<lambda>b t. feature_id b = 1 \<and> tag_id t = 1 \<and> is_active b)
      = [banner_b, banner_a\<lparr>updated_at := ''t3''\<rparr>]"
    by (simp only: f(3) association_order_rows) simp
  have t: "Tag 1 \<in> set (tag_rows ?st)" by (simp add: f(1))
  have u: "user_banner ?st 1 1 True = Inr (JSONResponse (JStr ''second'') HTTP_200_OK)"
    using user_banner_first_row[OF t rows] by (simp add: banner_b_fields)
  have m: "filter (banner_matches 1 1) (banners ?st) = [banner_a\<lparr>updated_at := ''t3''\<rparr>, banner_b]"
    by (simp add: f(2) banner_matches_def patched_banner_a_fields banner_b_fields)
  have ids: "banner_id (banner_a\<lparr>updated_at := ''t3''\<rparr>) < banner_id banner_b"
    by (simp add: banner_ab_ids)
  from m ids patched_banner_a_fields(5) u show ?thesis
    by (intro conjI)
qed

section \<open>Listing banners\<close>

subsection \<open>Slices\<close>




subsection \<open>The handler\<close>






lemma select_in_table_order:
  assumes "join_rank st = table_order"
  shows "select_banner_join_tags st cond
     = map fst (filter (\<lambda>(b, t). cond b t) [(b, t). b \<leftarrow> banners st, t \<leftarrow> tags b])"
proof -
  have "(\<lambda>(b, t). table_order b t) = (\<lambda>p. 0)" by (rule ext) (simp add: table_order_def split: prod.splits)
  then have "join_rows st = [(b, t). b \<leftarrow> banners st, t \<leftarrow> tags b]"
    by (simp only: join_rows_def assms sort_key_const)
  then show ?thesis by (simp only: select_banner_join_tags_def)
qed





subsection \<open>The join of the listing\<close>

lemma untagged_fields: "post_tag_ids untagged = []"
  by (simp add: untagged_def)

lemma store_default_banners: "banners store_default = [banner_c]" "join_rank store_default = table_order"
  by (simp_all add: store_default_def)

lemma unfiltered_rows:
  "get_banners_query st None None = map fst (join_rows st)"
  by (simp add: get_banners_query_def select_banner_join_tags_def)

lemma unfiltered_rows_set:
  "set (get_banners_query st None None) = {b. b \<in> set (banners st) \<and> tags b \<noteq> []}"
proof -
  have e: "\<And>b. (\<exists>t. t \<in> set (tags b)) \<longleftrightarrow> tags b \<noteq> []"
    by (metis all_not_in_conv set_empty)
  show ?thesis by (simp add: get_banners_query_def set_select_banner_join_tags e)
qed

lemma unfiltered_rows_length:
  "length (get_banners_query st None None) = sum_list (map (\<lambda>b. length (tags b)) (banners st))"
  by (simp add: unfiltered_rows join_rows_def length_concat comp_def)

text \<open>
  Claim C5 fails in the code. Without filters \<open>get_banners\<close> answers with the rows of
  the join of \<open>banners\<close> with their tags: the banners it lists are the ones that have a
  tag, and each is listed once for every tag it has. A banner created without tags in
  an empty database is in the table and is missing from the listing without filters; the
  banner of \<open>store_default\<close>, which has three tags, is listed three times.
\<close>

theorem listing_without_filters_joins_tags:
  "get_banners st None None None offset
     = Inr (JSONResponse (JList (map get_as_dict (get_banners_query st None None))) HTTP_200_OK) \<and>
   set (get_banners_query st None None) = {b. b \<in> set (banners st) \<and> tags b \<noteq> []} \<and>
   length (get_banners_query st None None) = sum_list (map (\<lambda>b. length (tags b)) (banners st)) \<and>
   map banner_id (banners (fst (post_banner empty_store untagged ''t1'' ''t1''))) = [1] \<and>
   get_banners (fst (post_banner empty_store untagged ''t1'' ''t1'')) None None None (Some 0)
     = Inr (JSONResponse (JList []) HTTP_200_OK) \<and>
   get_banners store_default None None None (Some 0)
     = Inr (JSONResponse (JList [get_as_dict banner_c, get_as_dict banner_c, get_as_dict banner_c])
         HTTP_200_OK)"
proof -
  let ?st = "fst (post_banner empty_store untagged ''t1'' ''t1'')"
  have g: "get_banners st None None None offset
     = Inr (JSONResponse (JList (map get_as_dict (get_banners_query st None None))) HTTP_200_OK)"
    by (simp add: get_banners_def)
  have bs: "banners ?st =
      [\<lparr>banner_id = 1, feature_id = post_feature_id untagged, tags = [],
        content = post_content untagged, is_active = post_is_active untagged,
        created_at = ''t1'', updated_at = ''t1''\<rparr>]"
    by (simp add: post_banner_eq untagged_fields empty_store_fields)
  have 1: "map banner_id (banners ?st) = [1]" by (simp add: bs)
  have "set (get_banners_query ?st None None) = {}"
    unfolding unfiltered_rows_set by (simp add: bs)
  then have "get_banners_query ?st None None = []" by simp
  then have 2: "get_banners ?st None None None (Some 0) = Inr (JSONResponse (JList []) HTTP_200_OK)"
    by (simp add: get_banners_def)
  have "get_banners_query store_default None None = [banner_c, banner_c, banner_c]"
    by (simp add: get_banners_query_def select_in_table_order store_default_banners banner_c_tags)
  then have 3: "get_banners store_default None None None (Some 0)
     = Inr (JSONResponse (JList [get_as_dict banner_c, get_as_dict banner_c, get_as_dict banner_c])
         HTTP_200_OK)"
    by (simp add: get_banners_def)
  from g unfiltered_rows_set unfiltered_rows_length 1 2 3 show ?thesis by (intro conjI)
qed

section \<open>Deleting a banner\<close>

lemma find_after_delete: "find (\<lambda>b. banner_id b = bid) (filter (\<lambda>b. banner_id b \<noteq> bid) bs) = None"
  by (simp add: find_None_iff)

lemma delete_banner_found:
  "session_get_banner st bid = Some banner \<Longrightarrow>
     delete_banner st bid
       = (st\<lparr>banners := filter (\<lambda>b. banner_id b \<noteq> bid) (banners st)\<rparr>,
          Inr (Response HTTP_204_NO_CONTENT))"
  by (simp add: delete_banner_def)

lemma delete_banner_absent:
  "session_get_banner st bid = None \<Longrightarrow>
     delete_banner st bid = (st, Inr (Returned (JInt 404)))"
  by (simp add: delete_banner_def)

lemma deleted_banner_is_gone:
  "session_get_banner (st\<lparr>banners := filter (\<lambda>b. banner_id b \<noteq> bid) (banners st)\<rparr>) bid = None"
  by (simp add: session_get_banner_def find_after_delete)

lemma admin_passes: "admin_token_verification store_one (Some ''admin_token'') = Inr ()"
  by (simp add: admin_token_verification_def select_users_def store_one_def test_user_def
      admin_user_def)

lemma admin_passes_after:
  "users st = users store_one \<Longrightarrow> admin_token_verification st (Some ''admin_token'') = Inr ()"
  using admin_passes by (simp add: admin_token_verification_def select_users_def)

lemma absent_after_delete: "session_get_banner (fst (delete_banner st bid)) bid = None"
proof (cases "session_get_banner st bid")
  case None
  then show ?thesis by (simp add: delete_banner_absent)
next
  case (Some banner)
  then show ?thesis by (simp add: delete_banner_found deleted_banner_is_gone)
qed

text \<open>
  Claim C7 fails in the code. A delete of a key that was deleted just before does not
  raise: \<open>delete_banner\<close> returns the integer 404 as the body of the answer, whose
  status is 200, and the store stays as it is. On \<open>store_one\<close>, as an admin: the first
  \<open>DELETE /banner/1\<close> answers 204 and removes the banner, the second one answers 200.
\<close>

theorem second_delete_answers_200:
  "delete_banner (fst (delete_banner st bid)) bid
     = (fst (delete_banner st bid), Inr (Returned (JInt 404))) \<and>
   http_status (snd (delete_banner (fst (delete_banner st bid)) bid)) = HTTP_200_OK \<and>
   DELETE_banner store_one (Some ''admin_token'') 1
     = (store_one\<lparr>banners := []\<rparr>, Inr (Response HTTP_204_NO_CONTENT)) \<and>
   DELETE_banner (store_one\<lparr>banners := []\<rparr>) (Some ''admin_token'') 1
     = (store_one\<lparr>banners := []\<rparr>, Inr (Returned (JInt 404))) \<and>
   http_status (snd (DELETE_banner (store_one\<lparr>banners := []\<rparr>) (Some ''admin_token'') 1))
     = HTTP_200_OK"
proof -
  have s: "delete_banner (fst (delete_banner st bid)) bid
     = (fst (delete_banner st bid), Inr (Returned (JInt 404)))"
    by (rule delete_banner_absent) (rule absent_after_delete)
  have h: "http_status (snd (delete_banner (fst (delete_banner st bid)) bid)) = HTTP_200_OK"
    by (simp add: s)
  have f: "filter (\<lambda>b. banner_id b \<noteq> 1) (banners store_one) = []"
    by (simp add: store_one_def banner_a_def)
  have 1: "DELETE_banner store_one (Some ''admin_token'') 1
     = (store_one\<lparr>banners := []\<rparr>, Inr (Response HTTP_204_NO_CONTENT))"
    using delete_banner_found[OF store_one_lookup(1)]
    by (simp add: DELETE_banner_def depends_def admin_passes f)
  have g: "session_get_banner (store_one\<lparr>banners := []\<rparr>) 1 = None"
    by (simp add: session_get_banner_def)
  have a: "admin_token_verification (store_one\<lparr>banners := []\<rparr>) (Some ''admin_token'') = Inr ()"
    by (rule admin_passes_after) simp
  have 2: "DELETE_banner (store_one\<lparr>banners := []\<rparr>) (Some ''admin_token'') 1
     = (store_one\<lparr>banners := []\<rparr>, Inr (Returned (JInt 404)))"
    using delete_banner_absent[OF g] by (simp add: DELETE_banner_def depends_def a)
  have 3: "http_status (snd (DELETE_banner (store_one\<lparr>banners := []\<rparr>) (Some ''admin_token'') 1))
     = HTTP_200_OK"
    by (simp add: 2)
  from s h 1 2 3 show ?thesis by (intro conjI)
qed

end
